theory Spec2Isabelle
  imports Main
begin

section \<open>Go strings\<close>

text \<open>
  A Go \<^verbatim>\<open>string\<close> is a sequence of bytes, here a \<^typ>\<open>string\<close> (a list of
  8-bit characters). \<open>NL\<close> is the byte written \<^verbatim>\<open>"\n"\<close> in the source.
\<close>

definition NL :: char where
  "NL = CHR 0x0A"

text \<open>\<^verbatim>\<open>strings.Split(s, sep)\<close> for a separator of one byte: the pieces of \<open>s\<close>
  between the occurrences of the separator, so an empty \<open>s\<close> gives one empty piece
  and a trailing separator gives a last empty piece.\<close>

fun strings_Split :: "char \<Rightarrow> string \<Rightarrow> string list" where
  "strings_Split c [] = [[]]"
| "strings_Split c (x # xs) =
     (if x = c then [] # strings_Split c xs
      else (case strings_Split c xs of
              [] \<Rightarrow> [[x]]
            | l # ls \<Rightarrow> (x # l) # ls))"

text \<open>\<^verbatim>\<open>strings.Join(elems, sep)\<close>.\<close>

fun strings_Join :: "string list \<Rightarrow> string \<Rightarrow> string" where
  "strings_Join [] sep = []"
| "strings_Join [x] sep = x"
| "strings_Join (x # y # ys) sep = x @ sep @ strings_Join (y # ys) sep"

text \<open>\<^verbatim>\<open>strings.HasSuffix(s, suffix)\<close>.\<close>

definition strings_HasSuffix :: "string \<Rightarrow> string \<Rightarrow> bool" where
  "strings_HasSuffix s suffix =
     (length suffix \<le> length s \<and> drop (length s - length suffix) s = suffix)"

text \<open>\<^verbatim>\<open>strings.ReplaceAll(s, old, new)\<close> for \<open>old\<close> and \<open>new\<close> of one byte each.\<close>

definition strings_ReplaceAll :: "string \<Rightarrow> char \<Rightarrow> char \<Rightarrow> string" where
  "strings_ReplaceAll s old new = map (\<lambda>c. if c = old then new else c) s"

section \<open>The operating system, as far as the driver uses it\<close>

text \<open>
  A Go \<^verbatim>\<open>error\<close> returned by the driver is represented by its \<^verbatim>\<open>Error()\<close> text;
  \<open>None\<close> is \<^verbatim>\<open>nil\<close>. Errors of the \<^verbatim>\<open>os\<close> package keep the one distinction the
  driver looks at, \<^verbatim>\<open>os.IsNotExist\<close>.
\<close>

type_synonym error = string

datatype oserror = ErrNotExist | ErrOther string

fun os_IsNotExist :: "oserror \<Rightarrow> bool" where
  "os_IsNotExist ErrNotExist = True"
| "os_IsNotExist (ErrOther msg) = False"

fun os_Error :: "oserror \<Rightarrow> string" where
  "os_Error ErrNotExist = ''file does not exist''"
| "os_Error (ErrOther msg) = msg"

text \<open>
  A file is \<open>None\<close> while it does not exist and \<open>Some\<close> of its bytes otherwise.
  Each call of the \<^verbatim>\<open>os\<close> package takes a \<^emph>\<open>fault\<close>: \<open>None\<close> when the call
  behaves normally on the file as it is, \<open>Some msg\<close> when it fails with an error of
  text \<open>msg\<close> that is not a does-not-exist error (permissions, a full disk, an I/O
  error). A read of a missing file fails with the does-not-exist error. The files
  are changed by the driver only.
\<close>

type_synonym fault = "string option"

text \<open>
  \<^verbatim>\<open>os.WriteFile\<close> opens the file with \<^verbatim>\<open>O_WRONLY|O_CREATE|O_TRUNC\<close>, writes the
  data and closes the file. It can fail in two ways: the open fails, and the file is
  as it was; or the file has been created or truncated and the write or the close
  fails, and the file holds the first \<open>n\<close> bytes of the data, for some \<open>n\<close>
  (none, some or all of them).
\<close>

datatype write_fault = OpenFails string | WriteFails nat string

type_synonym wfault = "write_fault option"

fun fault_text :: "write_fault \<Rightarrow> string" where
  "fault_text (OpenFails msg) = msg"
| "fault_text (WriteFails n msg) = msg"

text \<open>A write that does not fail after the file was truncated.\<close>

fun whole_write :: "wfault \<Rightarrow> bool" where
  "whole_write None = True"
| "whole_write (Some (OpenFails msg)) = True"
| "whole_write (Some (WriteFails n msg)) = False"

definition os_ReadFile :: "fault \<Rightarrow> string option \<Rightarrow> oserror + string" where
  "os_ReadFile flt file =
     (case flt of
        Some msg \<Rightarrow> Inl (ErrOther msg)
      | None \<Rightarrow> (case file of None \<Rightarrow> Inl ErrNotExist | Some data \<Rightarrow> Inr data))"

text \<open>The first argument gives the first \<open>n\<close> bytes of the data, \<^const>\<open>take\<close> for
  a string.\<close>

definition os_WriteFile ::
  "(nat \<Rightarrow> 'a \<Rightarrow> 'a) \<Rightarrow> wfault \<Rightarrow> 'a \<Rightarrow> 'a option \<Rightarrow> oserror option \<times> 'a option" where
  "os_WriteFile first flt data file =
     (case flt of
        None \<Rightarrow> (None, Some data)
      | Some (OpenFails msg) \<Rightarrow> (Some (ErrOther msg), file)
      | Some (WriteFails n msg) \<Rightarrow> (Some (ErrOther msg), Some (first n data)))"

definition os_Remove :: "fault \<Rightarrow> 'a option \<Rightarrow> oserror option \<times> 'a option" where
  "os_Remove flt file =
     (case flt of
        Some msg \<Rightarrow> (Some (ErrOther msg), file)
      | None \<Rightarrow> (case file of None \<Rightarrow> (Some ErrNotExist, None) | Some data \<Rightarrow> (None, None)))"

definition os_MkdirAll :: "fault \<Rightarrow> oserror option" where
  "os_MkdirAll flt = (case flt of Some msg \<Rightarrow> Some (ErrOther msg) | None \<Rightarrow> None)"

text \<open>\<^verbatim>\<open>filepath.Join\<close> is a parameter of the functions that build a path.\<close>

type_synonym pathjoin = "string \<Rightarrow> string \<Rightarrow> string"

section \<open>The driver\<close>

definition resourceFileName :: string where
  "resourceFileName = ''file1''"

definition cdiDir :: string where
  "cdiDir = ''/var/run/cdi''"

definition cdiVersion :: string where
  "cdiVersion = ''0.5.0''"

subsection \<open>CDI spec structures\<close>

record cdiMount =
  HostPath :: string
  ContainerPath :: string
  Options :: "string list"

record cdiContainerEdits =
  Mounts :: "cdiMount list"

record cdiDevice =
  Name_cdi :: string
  ContainerEdits :: cdiContainerEdits

record cdiSpec =
  CDIVersion :: string
  Kind :: string
  Devices_cdi :: "cdiDevice list"

text \<open>
  The bytes of a CDI spec file are not modelled one by one: they are the JSON
  encoding that \<^verbatim>\<open>json.MarshalIndent\<close> gives of a spec, or, after a write that
  failed part-way, the first \<open>n\<close> bytes of that encoding, of which nothing more is
  known.
\<close>

datatype cdi_bytes = Encoding cdiSpec | Cut nat cdiSpec

fun first_bytes :: "nat \<Rightarrow> cdi_bytes \<Rightarrow> cdi_bytes" where
  "first_bytes n (Encoding spec) = Cut n spec"
| "first_bytes n (Cut m spec) = Cut (min n m) spec"

subsection \<open>State\<close>

text \<open>
  The fields of \<^verbatim>\<open>Driver\<close> (without the gRPC server and the mutex), and with them
  the files the driver works on: \<open>resourceFile\<close> is the file at
  \<^verbatim>\<open>filepath.Join(d.resourceDir, resourceFileName)\<close>, \<open>cdiFiles\<close> maps a path to
  the bytes of the file at that path.
  \<^verbatim>\<open>prepareResource\<close> and \<^verbatim>\<open>unprepareResource\<close> hold \<^verbatim>\<open>d.mu\<close> from entry to
  return, so each of their calls is one step on this state, and calls made
  concurrently are the same steps in some order.
\<close>

record Driver =
  driverName :: string
  nodeName :: string
  pluginSocket :: string
  resourceDir :: string
  podResources :: "string \<rightharpoonup> string"

record node = Driver +
  resourceFile :: "string option"
  cdiFiles :: "string \<rightharpoonup> cdi_bytes"

text \<open>\<^verbatim>\<open>New\<close>, on a node whose files are \<open>file\<close> and \<open>cdi\<close>.\<close>

definition New ::
  "string \<Rightarrow> string \<Rightarrow> string \<Rightarrow> string \<Rightarrow> string option \<Rightarrow> (string \<rightharpoonup> cdi_bytes) \<Rightarrow> node" where
  "New dn nn ps rd file cdi =
     \<lparr>driverName = dn, nodeName = nn, pluginSocket = ps, resourceDir = rd,
      podResources = Map.empty, resourceFile = file, cdiFiles = cdi\<rparr>"

subsection \<open>Requests and responses\<close>

record Claim =
  Namespace :: string
  Uid :: string
  Name :: string

record Device =
  PoolName :: string
  DeviceName :: string
  CdiDeviceIds :: "string list"

record NodePrepareResourceResponse =
  Devices :: "Device list"
  Error :: string

record NodeUnprepareResourceResponse =
  Error_unprepare :: string

text \<open>A run-time panic of Go: slicing \<^verbatim>\<open>s[:hi]\<close> with \<open>hi\<close> beyond the length of \<open>s\<close>.\<close>

datatype panic = SliceBoundsOutOfRange nat nat

subsection \<open>extractPodName\<close>

definition extractPodName :: "Claim \<Rightarrow> panic + string" where
  "extractPodName claim =
     (if Name claim \<noteq> [] then Inr (''pod-using-'' @ Name claim)
      else if 8 \<le> length (Uid claim) then Inr (''pod-'' @ take 8 (Uid claim))
      else Inl (SliceBoundsOutOfRange 8 (length (Uid claim))))"

subsection \<open>prepareResource\<close>

definition prepareResource :: "wfault \<Rightarrow> string \<Rightarrow> string \<Rightarrow> node \<Rightarrow> error option \<times> node" where
  "prepareResource wflt claimUID podName d =
     (let content = podName @ '' (claim: '' @ claimUID @ '')'' @ [NL] in
      case os_WriteFile take wflt content (resourceFile d) of
        (Some err, file') \<Rightarrow>
          (Some (''failed to write resource file: '' @ os_Error err), d\<lparr>resourceFile := file'\<rparr>)
      | (None, file') \<Rightarrow>
          (None, d\<lparr>podResources := (podResources d)(claimUID \<mapsto> podName), resourceFile := file'\<rparr>))"

subsection \<open>unprepareResource\<close>

definition unprepareResource :: "fault \<Rightarrow> wfault \<Rightarrow> string \<Rightarrow> node \<Rightarrow> error option \<times> node" where
  "unprepareResource rflt wflt claimUID d =
     (case podResources d claimUID of
        None \<Rightarrow> (None, d)
      | Some podName \<Rightarrow>
          (case os_ReadFile rflt (resourceFile d) of
             Inl err \<Rightarrow>
               if os_IsNotExist err then (None, d)
               else (Some (''failed to read resource file: '' @ os_Error err), d)
           | Inr data \<Rightarrow>
               (let lines = strings_Split NL data;
                    searchPattern = podName @ '' (claim: '' @ claimUID @ '')'';
                    newLines = filter (\<lambda>line. line \<noteq> [] \<and> line \<noteq> searchPattern) lines;
                    joined = strings_Join newLines [NL];
                    newContent = (if joined \<noteq> [] \<and> \<not> strings_HasSuffix joined [NL]
                                  then joined @ [NL] else joined)
                in case os_WriteFile take wflt newContent (resourceFile d) of
                     (Some err, file') \<Rightarrow>
                       (Some (''failed to write resource file: '' @ os_Error err),
                        d\<lparr>resourceFile := file'\<rparr>)
                   | (None, file') \<Rightarrow>
                       (None, d\<lparr>podResources := (podResources d)(claimUID := None),
                                  resourceFile := file'\<rparr>))))"

subsection \<open>createCDISpec and deleteCDISpec\<close>

definition filePath :: "pathjoin \<Rightarrow> node \<Rightarrow> string" where
  "filePath join d = join (resourceDir d) resourceFileName"

definition cdiFilePath :: "pathjoin \<Rightarrow> node \<Rightarrow> string" where
  "cdiFilePath join d =
     join cdiDir (strings_ReplaceAll (driverName d) (CHR ''/'') (CHR ''-'')
                  @ ''-file-'' @ resourceFileName @ ''.json'')"

text \<open>\<^verbatim>\<open>json.MarshalIndent\<close> does not fail on a \<^verbatim>\<open>cdiSpec\<close> (strings and slices of
  strings only); its result is \<open>Encoding spec\<close>.\<close>

definition createCDISpec :: "pathjoin \<Rightarrow> fault \<Rightarrow> wfault \<Rightarrow> string \<Rightarrow> node \<Rightarrow> error option \<times> node" where
  "createCDISpec join mkflt wflt claimUID d =
     (case os_MkdirAll mkflt of
        Some err \<Rightarrow> (Some (''failed to create CDI directory: '' @ os_Error err), d)
      | None \<Rightarrow>
          (let spec = \<lparr>CDIVersion = cdiVersion,
                       Kind = driverName d @ ''/file'',
                       Devices_cdi =
                         [\<lparr>Name_cdi = resourceFileName,
                           ContainerEdits =
                             \<lparr>Mounts = [\<lparr>HostPath = filePath join d,
                                          ContainerPath = filePath join d,
                                          Options = [''ro'', ''bind'']\<rparr>]\<rparr>\<rparr>]\<rparr>;
               data = Encoding spec;
               path = cdiFilePath join d
           in case os_WriteFile first_bytes wflt data (cdiFiles d path) of
                (Some err, file') \<Rightarrow>
                  (Some (''failed to write CDI spec: '' @ os_Error err),
                   d\<lparr>cdiFiles := (cdiFiles d)(path := file')\<rparr>)
              | (None, file') \<Rightarrow> (None, d\<lparr>cdiFiles := (cdiFiles d)(path := file')\<rparr>)))"

definition deleteCDISpec :: "pathjoin \<Rightarrow> fault \<Rightarrow> string \<Rightarrow> node \<Rightarrow> error option \<times> node" where
  "deleteCDISpec join rmflt claimUID d =
     (let path = cdiFilePath join d in
      case os_Remove rmflt (cdiFiles d path) of
        (Some err, file') \<Rightarrow>
          if \<not> os_IsNotExist err
          then (Some (''failed to delete CDI spec: '' @ os_Error err),
                d\<lparr>cdiFiles := (cdiFiles d)(path := file')\<rparr>)
          else (None, d\<lparr>cdiFiles := (cdiFiles d)(path := file')\<rparr>)
      | (None, file') \<Rightarrow> (None, d\<lparr>cdiFiles := (cdiFiles d)(path := file')\<rparr>))"

subsection \<open>NodePrepareResources\<close>

text \<open>The faults met while one claim of a batch is handled: by the write of the
  resource file, by \<^verbatim>\<open>os.MkdirAll\<close> and by the write of the CDI spec.\<close>

record prepare_faults =
  resource_write :: wfault
  cdi_mkdir :: fault
  cdi_write :: wfault

type_synonym prepare_responses = "string \<rightharpoonup> NodePrepareResourceResponse"

text \<open>The loop over \<^verbatim>\<open>req.Claims\<close>. A panic ends the call without a response.\<close>

fun prepare_loop ::
  "pathjoin \<Rightarrow> (Claim \<times> prepare_faults) list \<Rightarrow> prepare_responses \<Rightarrow> node
     \<Rightarrow> (panic + prepare_responses) \<times> node" where
  "prepare_loop join [] resp d = (Inr resp, d)"
| "prepare_loop join ((claim, flt) # rest) resp d =
     (case extractPodName claim of
        Inl p \<Rightarrow> (Inl p, d)
      | Inr podName \<Rightarrow>
          (case prepareResource (resource_write flt) (Uid claim) podName d of
             (Some err, d1) \<Rightarrow>
               prepare_loop join rest (resp(Uid claim \<mapsto> \<lparr>Devices = [], Error = err\<rparr>)) d1
           | (None, d1) \<Rightarrow>
               (let cdiDeviceID = driverName d1 @ ''/file='' @ resourceFileName in
                case createCDISpec join (cdi_mkdir flt) (cdi_write flt) (Uid claim) d1 of
                  (Some err, d2) \<Rightarrow>
                    prepare_loop join rest (resp(Uid claim \<mapsto> \<lparr>Devices = [], Error = err\<rparr>)) d2
                | (None, d2) \<Rightarrow>
                    prepare_loop join rest
                      (resp(Uid claim \<mapsto>
                         \<lparr>Devices = [\<lparr>PoolName = ''default'',
                                       DeviceName = resourceFileName,
                                       CdiDeviceIds = [cdiDeviceID]\<rparr>],
                          Error = []\<rparr>)) d2)))"

definition NodePrepareResources ::
  "pathjoin \<Rightarrow> (Claim \<times> prepare_faults) list \<Rightarrow> node \<Rightarrow> (panic + prepare_responses) \<times> node" where
  "NodePrepareResources join req d = prepare_loop join req Map.empty d"

subsection \<open>NodeUnprepareResources\<close>

record unprepare_faults =
  resource_read :: fault
  resource_rewrite :: wfault
  cdi_remove :: fault

type_synonym unprepare_responses = "string \<rightharpoonup> NodeUnprepareResourceResponse"

fun unprepare_loop ::
  "pathjoin \<Rightarrow> (Claim \<times> unprepare_faults) list \<Rightarrow> unprepare_responses \<Rightarrow> node
     \<Rightarrow> unprepare_responses \<times> node" where
  "unprepare_loop join [] resp d = (resp, d)"
| "unprepare_loop join ((claim, flt) # rest) resp d =
     (case unprepareResource (resource_read flt) (resource_rewrite flt) (Uid claim) d of
        (Some err, d1) \<Rightarrow>
          unprepare_loop join rest (resp(Uid claim \<mapsto> \<lparr>Error_unprepare = err\<rparr>)) d1
      | (None, d1) \<Rightarrow>
          (case deleteCDISpec join (cdi_remove flt) (Uid claim) d1 of
             (warn, d2) \<Rightarrow>
               unprepare_loop join rest (resp(Uid claim \<mapsto> \<lparr>Error_unprepare = []\<rparr>)) d2))"

definition NodeUnprepareResources ::
  "pathjoin \<Rightarrow> (Claim \<times> unprepare_faults) list \<Rightarrow> node \<Rightarrow> unprepare_responses \<times> node" where
  "NodeUnprepareResources join req d = unprepare_loop join req Map.empty d"


section \<open>The lines of the resource file\<close>

text \<open>The non-empty lines of the resource file, none when the file does not exist,
  and the record \<^verbatim>\<open><consumer label> (claim: <claim id>)\<close> of a claim.\<close>

definition file_lines :: "string option \<Rightarrow> string list" where
  "file_lines file =
     (case file of None \<Rightarrow> [] | Some data \<Rightarrow> filter (\<lambda>line. line \<noteq> []) (strings_Split NL data))"

definition record_line :: "string \<Rightarrow> string \<Rightarrow> string" where
  "record_line label claimUID = label @ '' (claim: '' @ claimUID @ '')''"

definition record_image :: "(string \<rightharpoonup> string) \<Rightarrow> string set" where
  "record_image m = {record_line label claimUID | claimUID label. m claimUID = Some label}"

section \<open>Sequences of calls\<close>

text \<open>A call of \<^verbatim>\<open>prepareResource\<close> or of \<^verbatim>\<open>unprepareResource\<close> with the faults it
  meets; \<open>run\<close> makes the calls of a list in order, from left to right, and
  \<open>results\<close> lists what each call returned.\<close>

datatype call =
  Prepare wfault string string
| Unprepare fault wfault string

fun step :: "call \<Rightarrow> node \<Rightarrow> error option \<times> node" where
  "step (Prepare wflt claimUID podName) d = prepareResource wflt claimUID podName d"
| "step (Unprepare rflt wflt claimUID) d = unprepareResource rflt wflt claimUID d"

fun run :: "call list \<Rightarrow> node \<Rightarrow> node" where
  "run [] d = d"
| "run (c # cs) d = run cs (snd (step c d))"

fun results :: "call list \<Rightarrow> node \<Rightarrow> (call \<times> error option) list" where
  "results [] d = []"
| "results (c # cs) d = (c, fst (step c d)) # results cs (snd (step c d))"

fun call_uid :: "call \<Rightarrow> string" where
  "call_uid (Prepare wflt claimUID podName) = claimUID"
| "call_uid (Unprepare rflt wflt claimUID) = claimUID"

fun is_prepare :: "call \<Rightarrow> bool" where
  "is_prepare (Prepare wflt claimUID podName) = True"
| "is_prepare (Unprepare rflt wflt claimUID) = False"

text \<open>A claim id is \<^emph>\<open>prepared and not yet unprepared\<close> after a list of calls and
  their results when the last call for it that returned without error is a prepare.\<close>

fun prepared_not_unprepared :: "string \<Rightarrow> (call \<times> error option) list \<Rightarrow> bool \<Rightarrow> bool" where
  "prepared_not_unprepared claimUID [] b = b"
| "prepared_not_unprepared claimUID ((c, r) # rs) b =
     prepared_not_unprepared claimUID rs
       (if call_uid c = claimUID \<and> r = None then is_prepare c else b)"

text \<open>The calls whose claim id and consumer label hold no line feed.\<close>

fun one_line_call :: "call \<Rightarrow> bool" where
  "one_line_call (Prepare wflt claimUID podName) = (NL \<notin> set claimUID \<and> NL \<notin> set podName)"
| "one_line_call (Unprepare rflt wflt claimUID) = True"

text \<open>The calls whose write of the resource file, if it fails, fails at the open.\<close>

fun whole_write_call :: "call \<Rightarrow> bool" where
  "whole_write_call (Prepare wflt claimUID podName) = whole_write wflt"
| "whole_write_call (Unprepare rflt wflt claimUID) = whole_write wflt"

section \<open>The publisher\<close>

record ResourcePool =
  Name_pool :: string
  Generation :: int
  ResourceSliceCount :: int

record Device_slice =
  Name_device :: string
  Attributes :: "(string \<times> string) list"

record ResourceSlice =
  Name_slice :: string
  ResourceVersion :: string
  Driver_spec :: string
  NodeName_spec :: string
  Pool :: ResourcePool
  Devices_spec :: "Device_slice list"

record ResourcePublisher =
  driverName_pub :: string
  nodeName_pub :: string
  resourceName_pub :: string

text \<open>
  The broker is reached through \<^verbatim>\<open>p.client\<close>. A publish makes at most one call of
  each of \<^verbatim>\<open>Create\<close>, \<^verbatim>\<open>Get\<close> and \<^verbatim>\<open>Update\<close>; the replies of the broker are a
  parameter, and the calls made are returned with the result, in order.
\<close>

datatype apierror = AlreadyExists string | OtherFailure string

fun api_Error :: "apierror \<Rightarrow> string" where
  "api_Error (AlreadyExists msg) = msg"
| "api_Error (OtherFailure msg) = msg"

record broker_replies =
  create_reply :: "apierror option"
  get_reply :: "apierror + ResourceSlice"
  update_reply :: "apierror option"

datatype api_call = Create ResourceSlice | Get string | Update ResourceSlice

definition PublishResources :: "ResourcePublisher \<Rightarrow> broker_replies \<Rightarrow> api_call list \<times> error option" where
  "PublishResources p b =
     (let sliceName = nodeName_pub p @ ''-'' @ driverName_pub p;
          poolName = nodeName_pub p;
          slice = \<lparr>Name_slice = sliceName,
                   ResourceVersion = [],
                   Driver_spec = driverName_pub p,
                   NodeName_spec = nodeName_pub p,
                   Pool = \<lparr>Name_pool = poolName, Generation = 1, ResourceSliceCount = 1\<rparr>,
                   Devices_spec =
                     [\<lparr>Name_device = resourceName_pub p,
                       Attributes =
                         [(''file.dra.example.com/type'', ''file''),
                          (''file.dra.example.com/filename'', resourceName_pub p),
                          (''file.dra.example.com/path'', ''/etc/dra/'' @ resourceName_pub p)]\<rparr>]\<rparr>
      in case create_reply b of
           None \<Rightarrow> ([Create slice], None)
         | Some err \<Rightarrow>
             (case get_reply b of
                Inl getErr \<Rightarrow>
                  ([Create slice, Get sliceName],
                   Some (''failed to create or get ResourceSlice: create='' @ api_Error err
                         @ '', get='' @ api_Error getErr))
              | Inr existing \<Rightarrow>
                  (let slice' = slice\<lparr>ResourceVersion := ResourceVersion existing\<rparr> in
                   case update_reply b of
                     Some uerr \<Rightarrow>
                       ([Create slice, Get sliceName, Update slice'],
                        Some (''failed to update ResourceSlice: '' @ api_Error uerr))
                   | None \<Rightarrow> ([Create slice, Get sliceName, Update slice'], None))))"

section \<open>The rewrite of the resource file\<close>

text \<open>What \<^verbatim>\<open>unprepareResource\<close> writes back when it has read \<open>data\<close> and looks
  for \<open>searchPattern\<close>: the same chain of \<^verbatim>\<open>strings.Split\<close>, the filter loop,
  \<^verbatim>\<open>strings.Join\<close> and the final line feed.\<close>

definition rewritten :: "string \<Rightarrow> string \<Rightarrow> string" where
  "rewritten searchPattern data =
     (let lines = strings_Split NL data;
          newLines = filter (\<lambda>line. line \<noteq> [] \<and> line \<noteq> searchPattern) lines;
          joined = strings_Join newLines [NL]
      in if joined \<noteq> [] \<and> \<not> strings_HasSuffix joined [NL] then joined @ [NL] else joined)"

section \<open>Invariants of the state\<close>

text \<open>Every line of the resource file is the record of an entry of \<open>podResources\<close>,
  and the file has one line at most.\<close>

definition lines_tracked :: "node \<Rightarrow> bool" where
  "lines_tracked d =
     (set (file_lines (resourceFile d)) \<subseteq> record_image (podResources d)
      \<and> length (file_lines (resourceFile d)) \<le> 1)"

text \<open>While a claim is tracked the resource file exists.\<close>

definition tracked_file_exists :: "node \<Rightarrow> bool" where
  "tracked_file_exists d = (podResources d \<noteq> Map.empty \<longrightarrow> resourceFile d \<noteq> None)"

section \<open>The injection descriptor\<close>

text \<open>A CDI spec has a mount of the file at \<open>path\<close> onto the same path, read-only
  and bind; and the CDI spec file of the driver exists and holds the whole encoding
  of a spec with such a mount of the resource file.\<close>

definition has_resource_mount :: "string \<Rightarrow> cdiSpec \<Rightarrow> bool" where
  "has_resource_mount path spec =
     (\<exists>dev\<in>set (Devices_cdi spec). \<exists>m\<in>set (Mounts (ContainerEdits dev)).
        HostPath m = path \<and> ContainerPath m = path
        \<and> ''ro'' \<in> set (Options m) \<and> ''bind'' \<in> set (Options m))"

definition descriptor_present :: "pathjoin \<Rightarrow> node \<Rightarrow> bool" where
  "descriptor_present join d =
     (case cdiFiles d (cdiFilePath join d) of
        None \<Rightarrow> False
      | Some (Cut n spec) \<Rightarrow> False
      | Some (Encoding spec) \<Rightarrow> has_resource_mount (filePath join d) spec)"

section \<open>The result of one claim of a prepare batch\<close>

text \<open>The response that the loop of \<^verbatim>\<open>NodePrepareResources\<close> stores for a claim,
  read off its three branches, as a function of the driver name and of the faults
  met while the claim is handled.\<close>

definition claim_result :: "string \<Rightarrow> prepare_faults \<Rightarrow> NodePrepareResourceResponse" where
  "claim_result dn flt =
     (case resource_write flt of
        Some w \<Rightarrow> \<lparr>Devices = [], Error = ''failed to write resource file: '' @ fault_text w\<rparr>
      | None \<Rightarrow>
          (case cdi_mkdir flt of
             Some msg \<Rightarrow> \<lparr>Devices = [], Error = ''failed to create CDI directory: '' @ msg\<rparr>
           | None \<Rightarrow>
               (case cdi_write flt of
                  Some w \<Rightarrow> \<lparr>Devices = [], Error = ''failed to write CDI spec: '' @ fault_text w\<rparr>
                | None \<Rightarrow>
                    \<lparr>Devices = [\<lparr>PoolName = ''default'', DeviceName = resourceFileName,
                                  CdiDeviceIds = [dn @ ''/file='' @ resourceFileName]\<rparr>],
                     Error = []\<rparr>)))"

text \<open>The claims on which \<open>extractPodName\<close> does not panic.\<close>

definition label_defined :: "Claim \<Rightarrow> bool" where
  "label_defined claim = (Name claim \<noteq> [] \<or> 8 \<le> length (Uid claim))"

section \<open>Lemmas on the string functions\<close>

lemma strings_Split_not_Nil: "strings_Split c s \<noteq> []"
  by (induction s) (auto split: list.splits)

lemma strings_Split_free: "l \<in> set (strings_Split c s) \<Longrightarrow> c \<notin> set l"
  by (induction s arbitrary: l) (auto split: if_splits list.splits)

lemma strings_Split_no_sep: "c \<notin> set s \<Longrightarrow> strings_Split c s = [s]"
  by (induction s) auto

lemma strings_Split_append_sep:
  "c \<notin> set a \<Longrightarrow> strings_Split c (a @ c # b) = a # strings_Split c b"
  by (induction a) auto

lemma strings_Split_snoc_sep: "strings_Split c (s @ [c]) = strings_Split c s @ [[]]"
  by (induction s) (auto split: list.splits simp: strings_Split_not_Nil)

lemma strings_Split_Join:
  "ls \<noteq> [] \<Longrightarrow> \<forall>l\<in>set ls. c \<notin> set l \<Longrightarrow> strings_Split c (strings_Join ls [c]) = ls"
proof (induction ls "[c]" rule: strings_Join.induct)
  case 1
  then show ?case by simp
next
  case (2 x)
  then show ?case by (simp add: strings_Split_no_sep)
next
  case (3 x y ys)
  then show ?case by (simp add: strings_Split_append_sep)
qed

lemma strings_HasSuffix_single: "strings_HasSuffix s [c] = (s \<noteq> [] \<and> last s = c)"
proof (cases s rule: rev_cases)
  case Nil
  then show ?thesis by (simp add: strings_HasSuffix_def)
next
  case (snoc ys y)
  then show ?thesis by (auto simp: strings_HasSuffix_def)
qed

lemma strings_Join_last:
  "ls \<noteq> [] \<Longrightarrow> \<forall>l\<in>set ls. l \<noteq> [] \<Longrightarrow>
     strings_Join ls sep \<noteq> [] \<and> last (strings_Join ls sep) = last (last ls)"
  by (induction ls sep rule: strings_Join.induct) auto

lemma file_lines_rewritten:
  "file_lines (Some (rewritten pat data)) = filter (\<lambda>l. l \<noteq> pat) (file_lines (Some data))"
proof -
  define newLines where
    "newLines = filter (\<lambda>line. line \<noteq> [] \<and> line \<noteq> pat) (strings_Split NL data)"
  have free: "\<forall>l\<in>set newLines. NL \<notin> set l"
    by (auto simp: newLines_def dest: strings_Split_free)
  have nonempty: "\<forall>l\<in>set newLines. l \<noteq> []"
    by (auto simp: newLines_def)
  have flt: "filter (\<lambda>l. l \<noteq> pat) (file_lines (Some data)) = newLines"
    by (auto simp: newLines_def file_lines_def intro: filter_cong)
  show ?thesis
  proof (cases "newLines = []")
    case True
    then have "rewritten pat data = []"
      by (simp add: rewritten_def newLines_def [symmetric])
    then have "file_lines (Some (rewritten pat data)) = []"
      by (simp add: file_lines_def)
    then show ?thesis
      by (simp only: flt True)
  next
    case False
    have j: "strings_Join newLines [NL] \<noteq> []"
      "last (strings_Join newLines [NL]) = last (last newLines)"
      using strings_Join_last [OF False nonempty] by auto
    have "last newLines \<in> set newLines" using False by simp
    then have "last (last newLines) \<noteq> NL"
      using free nonempty by (metis last_in_set)
    then have rw: "rewritten pat data = strings_Join newLines [NL] @ [NL]"
      using j by (simp add: rewritten_def newLines_def [symmetric] strings_HasSuffix_single)
    have "strings_Split NL (strings_Join newLines [NL] @ [NL]) = newLines @ [[]]"
      using strings_Split_Join [OF False free] by (simp add: strings_Split_snoc_sep)
    then have "file_lines (Some (rewritten pat data)) = newLines"
      using nonempty by (simp add: rw file_lines_def filter_id_conv)
    then show ?thesis
      by (simp only: flt)
  qed
qed

section \<open>Lemmas on the loops\<close>

lemma prepare_loop_panics:
  "(claim, flt) \<in> set req \<Longrightarrow> extractPodName claim = Inl p
     \<Longrightarrow> \<exists>q. fst (prepare_loop join req resp d) = Inl q"
proof (induction req arbitrary: resp d)
  case Nil
  then show ?case by simp
next
  case (Cons a req)
  obtain c f where a: "a = (c, f)" by (cases a)
  show ?case
  proof (cases "extractPodName c")
    case (Inl q)
    then show ?thesis by (simp add: a)
  next
    case (Inr podName)
    with Cons.prems have "(claim, flt) \<in> set req" by (auto simp: a)
    then have "\<And>resp d. \<exists>q. fst (prepare_loop join req resp d) = Inl q"
      using Cons.IH Cons.prems(2) by blast
    then show ?thesis
      by (simp add: a Inr Let_def split: prod.splits option.splits)
  qed
qed

section \<open>C10: the consumer label of a claim without a name\<close>

text \<open>
  C10. For a claim whose \<open>Name\<close> is empty, \<open>extractPodName\<close> slices the first
  8 bytes of the uid. With a uid of 8 bytes or more it returns \<open>pod-\<close> followed by
  these 8 bytes. With a shorter uid the slice is out of range: \<open>extractPodName\<close>
  panics, and so does \<open>NodePrepareResources\<close> on every batch that holds such a
  claim, whatever the faults and the state, instead of returning a response with an
  error for the claim.
\<close>

theorem extractPodName_empty_name:
  assumes "Name claim = []"
  shows "(8 \<le> length (Uid claim) \<longrightarrow> extractPodName claim = Inr (''pod-'' @ take 8 (Uid claim)))
       \<and> (length (Uid claim) < 8 \<longrightarrow>
            extractPodName claim = Inl (SliceBoundsOutOfRange 8 (length (Uid claim)))
          \<and> (\<forall>join req flt d. (claim, flt) \<in> set req \<longrightarrow>
                (\<exists>p. fst (NodePrepareResources join req d) = Inl p)))"
proof -
  have long: "8 \<le> length (Uid claim) \<longrightarrow> extractPodName claim = Inr (''pod-'' @ take 8 (Uid claim))"
    using assms by (simp add: extractPodName_def)
  have short: "length (Uid claim) < 8 \<longrightarrow>
      extractPodName claim = Inl (SliceBoundsOutOfRange 8 (length (Uid claim)))"
    using assms by (simp add: extractPodName_def)
  have batch: "\<exists>p. fst (NodePrepareResources join req d) = Inl p"
    if "length (Uid claim) < 8" and "(claim, flt) \<in> set req" for join req flt d
    unfolding NodePrepareResources_def
    using that(2) short that(1) by (blast intro: prepare_loop_panics)
  show ?thesis
    using long short batch by blast
qed

theorem extractPodName_empty_name_witness:
  "Name \<lparr>Namespace = ''default'', Uid = ''abc'', Name = []\<rparr> = []
   \<and> length (Uid \<lparr>Namespace = ''default'', Uid = ''abc'', Name = []\<rparr>) < 8
   \<and> extractPodName \<lparr>Namespace = ''default'', Uid = ''abc'', Name = []\<rparr>
       = Inl (SliceBoundsOutOfRange 8 3)
   \<and> (\<exists>p. fst (NodePrepareResources (\<lambda>dir name. dir @ ''/'' @ name)
               [(\<lparr>Namespace = ''default'', Uid = ''abc'', Name = []\<rparr>,
                 \<lparr>resource_write = None, cdi_mkdir = None, cdi_write = None\<rparr>)]
               (New ''file.dra.example.com'' ''node-1'' ''/plugin.sock'' ''/etc/dra'' None Map.empty))
          = Inl p)
   \<and> Name \<lparr>Namespace = ''default'', Uid = ''0123456789'', Name = []\<rparr> = []
   \<and> 8 \<le> length (Uid \<lparr>Namespace = ''default'', Uid = ''0123456789'', Name = []\<rparr>)
   \<and> extractPodName \<lparr>Namespace = ''default'', Uid = ''0123456789'', Name = []\<rparr>
       = Inr ''pod-01234567''"
proof -
  have short: "Name \<lparr>Namespace = ''default'', Uid = ''abc'', Name = []\<rparr> = []
      \<and> length (Uid \<lparr>Namespace = ''default'', Uid = ''abc'', Name = []\<rparr>) < 8"
    by simp
  have long: "Name \<lparr>Namespace = ''default'', Uid = ''0123456789'', Name = []\<rparr> = []
      \<and> 8 \<le> length (Uid \<lparr>Namespace = ''default'', Uid = ''0123456789'', Name = []\<rparr>)"
    by simp
  show ?thesis
    using extractPodName_empty_name [of "\<lparr>Namespace = ''default'', Uid = ''abc'', Name = []\<rparr>"]
      extractPodName_empty_name [of "\<lparr>Namespace = ''default'', Uid = ''0123456789'', Name = []\<rparr>"]
      short long
    by simp
qed

section \<open>Lemmas on prepareResource and unprepareResource\<close>

lemma os_WriteFile_fail:
  "os_WriteFile first (Some w) data file
     = (Some (ErrOther (fault_text w)), snd (os_WriteFile first (Some w) data file))"
  by (cases w) (simp_all add: os_WriteFile_def)

lemma os_WriteFile_whole:
  "whole_write (Some w) \<Longrightarrow> snd (os_WriteFile first (Some w) data file) = file"
  by (cases w) (simp_all add: os_WriteFile_def)

lemma os_WriteFile_exists:
  "file \<noteq> None \<Longrightarrow> snd (os_WriteFile first flt data file) \<noteq> None"
  by (simp add: os_WriteFile_def split: option.splits write_fault.splits)

lemma prepareResource_ok:
  "prepareResource None claimUID podName d =
     (None, d\<lparr>podResources := (podResources d)(claimUID \<mapsto> podName),
              resourceFile := Some (record_line podName claimUID @ [NL])\<rparr>)"
  by (simp add: prepareResource_def os_WriteFile_def record_line_def)

lemma prepareResource_fail:
  "prepareResource (Some w) claimUID podName d =
     (Some (''failed to write resource file: '' @ fault_text w),
      d\<lparr>resourceFile :=
          snd (os_WriteFile take (Some w) (record_line podName claimUID @ [NL]) (resourceFile d))\<rparr>)"
  by (cases w) (simp_all add: prepareResource_def os_WriteFile_def record_line_def)

text \<open>A write that fails part-way leaves the first bytes of the new record in the
  file, in place of what the file held, and \<open>podResources\<close> as it was.\<close>

lemma prepareResource_part_way:
  "prepareResource (Some (WriteFails n msg)) claimUID podName d =
     (Some (''failed to write resource file: '' @ msg),
      d\<lparr>resourceFile := Some (take n (record_line podName claimUID @ [NL]))\<rparr>)"
  by (simp add: prepareResource_fail os_WriteFile_def)

lemma unprepareResource_untracked:
  "podResources d claimUID = None \<Longrightarrow> unprepareResource rflt wflt claimUID d = (None, d)"
  by (simp add: unprepareResource_def)

lemma unprepareResource_read_fail:
  "podResources d claimUID = Some podName \<Longrightarrow>
     unprepareResource (Some msg) wflt claimUID d =
       (Some (''failed to read resource file: '' @ msg), d)"
  by (simp add: unprepareResource_def os_ReadFile_def)

lemma unprepareResource_no_file:
  "podResources d claimUID = Some podName \<Longrightarrow> resourceFile d = None \<Longrightarrow>
     unprepareResource None wflt claimUID d = (None, d)"
  by (simp add: unprepareResource_def os_ReadFile_def)

lemma unprepareResource_write_fail:
  "podResources d claimUID = Some podName \<Longrightarrow> resourceFile d = Some data \<Longrightarrow>
     unprepareResource None (Some w) claimUID d =
       (Some (''failed to write resource file: '' @ fault_text w),
        d\<lparr>resourceFile :=
            snd (os_WriteFile take (Some w) (rewritten (record_line podName claimUID) data)
                   (Some data))\<rparr>)"
  by (cases w)
    (simp_all add: unprepareResource_def os_ReadFile_def os_WriteFile_def Let_def
      rewritten_def record_line_def)

lemma unprepareResource_ok:
  "podResources d claimUID = Some podName \<Longrightarrow> resourceFile d = Some data \<Longrightarrow>
     unprepareResource None None claimUID d =
       (None, d\<lparr>podResources := (podResources d)(claimUID := None),
                resourceFile := Some (rewritten (record_line podName claimUID) data)\<rparr>)"
  by (simp add: unprepareResource_def os_ReadFile_def os_WriteFile_def Let_def
      rewritten_def record_line_def)

lemma record_line_not_Nil: "record_line label claimUID \<noteq> []"
  by (simp add: record_line_def)

lemma NL_notin_record_line:
  "NL \<notin> set label \<Longrightarrow> NL \<notin> set claimUID \<Longrightarrow> NL \<notin> set (record_line label claimUID)"
  by (simp add: record_line_def NL_def)

lemma file_lines_record:
  "NL \<notin> set label \<Longrightarrow> NL \<notin> set claimUID \<Longrightarrow>
     file_lines (Some (record_line label claimUID @ [NL])) = [record_line label claimUID]"
  by (simp add: file_lines_def strings_Split_snoc_sep strings_Split_no_sep
      NL_notin_record_line record_line_not_Nil)

text \<open>The five ways a call of \<open>unprepareResource\<close> can go.\<close>

lemma unprepareResource_cases:
  obtains
    (untracked) "podResources d claimUID = None"
      "unprepareResource rflt wflt claimUID d = (None, d)"
  | (read_fail) podName msg where "podResources d claimUID = Some podName" "rflt = Some msg"
      "unprepareResource rflt wflt claimUID d = (Some (''failed to read resource file: '' @ msg), d)"
  | (no_file) podName where "podResources d claimUID = Some podName" "rflt = None"
      "resourceFile d = None" "unprepareResource rflt wflt claimUID d = (None, d)"
  | (write_fail) podName data w where "podResources d claimUID = Some podName" "rflt = None"
      "resourceFile d = Some data" "wflt = Some w"
      "unprepareResource rflt wflt claimUID d =
         (Some (''failed to write resource file: '' @ fault_text w),
          d\<lparr>resourceFile :=
              snd (os_WriteFile take (Some w) (rewritten (record_line podName claimUID) data)
                     (Some data))\<rparr>)"
  | (ok) podName data where "podResources d claimUID = Some podName" "rflt = None"
      "resourceFile d = Some data" "wflt = None"
      "unprepareResource rflt wflt claimUID d =
         (None, d\<lparr>podResources := (podResources d)(claimUID := None),
                  resourceFile := Some (rewritten (record_line podName claimUID) data)\<rparr>)"
proof (cases "podResources d claimUID")
  case None
  then show ?thesis using untracked unprepareResource_untracked by blast
next
  case (Some podName)
  show ?thesis
  proof (cases rflt)
    case (Some msg)
    then show ?thesis
      using read_fail unprepareResource_read_fail \<open>podResources d claimUID = Some podName\<close>
      by blast
  next
    case None
    note rn = None
    show ?thesis
    proof (cases "resourceFile d")
      case None
      then show ?thesis
        using no_file unprepareResource_no_file rn \<open>podResources d claimUID = Some podName\<close>
        by blast
    next
      case (Some data)
      note fs = Some
      show ?thesis
      proof (cases wflt)
        case None
        then show ?thesis
          using ok unprepareResource_ok rn fs \<open>podResources d claimUID = Some podName\<close>
          by blast
      next
        case (Some w)
        then show ?thesis
          using write_fail unprepareResource_write_fail rn fs
            \<open>podResources d claimUID = Some podName\<close>
          by blast
      qed
    qed
  qed
qed

section \<open>Lemmas on sequences of calls\<close>

lemma run_append: "run (cs @ cs') d = run cs' (run cs d)"
  by (induction cs arbitrary: d) auto

lemma run_snoc: "run (cs @ [c]) d = snd (step c (run cs d))"
  by (simp add: run_append)

lemma lines_tracked_prepared:
  assumes "NL \<notin> set claimUID" and "NL \<notin> set podName"
  shows "lines_tracked (snd (prepareResource None claimUID podName d))"
proof -
  have "record_line podName claimUID \<in> record_image ((podResources d)(claimUID \<mapsto> podName))"
    unfolding record_image_def by auto
  then show ?thesis
    using assms by (simp add: prepareResource_ok lines_tracked_def file_lines_record)
qed

lemma lines_tracked_step:
  assumes "one_line_call c" and "whole_write_call c" and "lines_tracked d"
  shows "lines_tracked (snd (step c d))"
proof (cases c)
  case (Prepare wflt claimUID podName)
  show ?thesis
  proof (cases wflt)
    case None
    then show ?thesis
      using assms(1) by (simp add: Prepare lines_tracked_prepared)
  next
    case (Some w)
    with assms(2) have "whole_write (Some w)" by (simp add: Prepare)
    then show ?thesis
      using assms(3) by (simp add: Prepare Some prepareResource_fail os_WriteFile_whole)
  qed
next
  case (Unprepare rflt wflt claimUID)
  show ?thesis
  proof (cases rule: unprepareResource_cases [of d claimUID rflt wflt])
    case untracked
    then show ?thesis using assms(3) by (simp add: Unprepare)
  next
    case (read_fail podName msg)
    then show ?thesis using assms(3) by (simp add: Unprepare)
  next
    case (no_file podName)
    then show ?thesis using assms(3) by (simp add: Unprepare)
  next
    case (write_fail podName data w)
    with assms(2) have "whole_write (Some w)" by (simp add: Unprepare)
    then have "snd (os_WriteFile take (Some w) (rewritten (record_line podName claimUID) data)
        (Some data)) = resourceFile d"
      by (simp add: os_WriteFile_whole write_fail(3))
    then show ?thesis
      using assms(3) write_fail(5) by (simp add: Unprepare)
  next
    case (ok podName data)
    have sub: "set (file_lines (Some data)) \<subseteq> record_image (podResources d)"
      and len: "length (file_lines (Some data)) \<le> 1"
      using assms(3) ok(3) by (simp_all add: lines_tracked_def)
    have "l \<in> record_image ((podResources d)(claimUID := None))"
      if "l \<in> set (file_lines (Some data))" and "l \<noteq> record_line podName claimUID" for l
    proof -
      from that(1) sub obtain X L where XL: "podResources d X = Some L" "l = record_line L X"
        unfolding record_image_def by blast
      with that(2) ok(1) have "X \<noteq> claimUID" by auto
      with XL show ?thesis unfolding record_image_def by auto
    qed
    moreover have "length (filter (\<lambda>l. l \<noteq> record_line podName claimUID) (file_lines (Some data))) \<le> 1"
      using len length_filter_le le_trans by blast
    ultimately show ?thesis
      by (auto simp: Unprepare ok(5) lines_tracked_def file_lines_rewritten)
  qed
qed

lemma lines_tracked_run:
  "\<forall>c\<in>set cs. one_line_call c \<and> whole_write_call c \<Longrightarrow> lines_tracked d
     \<Longrightarrow> lines_tracked (run cs d)"
  by (induction cs arbitrary: d) (auto intro: lines_tracked_step)

lemma lines_tracked_New: "lines_tracked (New dn nn ps rd None cdi)"
  by (simp add: lines_tracked_def New_def file_lines_def)

section \<open>C1: what a prepare call does to the resource file\<close>

text \<open>
  C1, as stated, asks that two prepare calls for two claim ids leave two lines in the
  resource file. They leave one: \<open>prepareResource\<close> does not read the file, it
  overwrites it with the record of its own claim.
\<close>

theorem prepare_appends_counterexample:
  "file_lines (resourceFile (run [Prepare None ''claim-1'' ''pod-using-a'',
                                  Prepare None ''claim-2'' ''pod-using-b'']
                               (New ''file.dra.example.com'' ''node-1'' ''/plugin.sock''
                                  ''/etc/dra'' None Map.empty)))
     = [''pod-using-b (claim: claim-2)'']
   \<and> length (file_lines (resourceFile (run [Prepare None ''claim-1'' ''pod-using-a'',
                                             Prepare None ''claim-2'' ''pod-using-b'']
                               (New ''file.dra.example.com'' ''node-1'' ''/plugin.sock''
                                  ''/etc/dra'' None Map.empty)))) \<noteq> 2"
  by (simp add: prepareResource_ok New_def file_lines_def record_line_def NL_def)

text \<open>
  C1, amended. A prepare call whose write succeeds replaces the contents of the
  resource file, whatever they were, by the one record of its claim id and consumer
  label followed by a line feed. So after any number of such calls, one at least, in
  whatever order the lock serialises them and from any state, the file holds the
  record of the call made last and nothing else: one line, when the claim id and
  the label hold no line feed.
\<close>

theorem prepare_overwrites_resource_file:
  assumes "ps \<noteq> []"
  shows "resourceFile (run (map (\<lambda>(claimUID, podName). Prepare None claimUID podName) ps) d)
           = Some (record_line (snd (last ps)) (fst (last ps)) @ [NL])
       \<and> (NL \<notin> set (fst (last ps)) \<and> NL \<notin> set (snd (last ps)) \<longrightarrow>
            file_lines (resourceFile
                (run (map (\<lambda>(claimUID, podName). Prepare None claimUID podName) ps) d))
              = [record_line (snd (last ps)) (fst (last ps))])"
proof -
  from assms have split: "ps = butlast ps @ [last ps]" by simp
  obtain claimUID podName where lst: "last ps = (claimUID, podName)" by (cases "last ps")
  have "map (\<lambda>(claimUID, podName). Prepare None claimUID podName) ps
          = map (\<lambda>(claimUID, podName). Prepare None claimUID podName) (butlast ps)
            @ [Prepare None claimUID podName]"
    by (subst split) (simp add: lst)
  then have "resourceFile (run (map (\<lambda>(claimUID, podName). Prepare None claimUID podName) ps) d)
          = Some (record_line podName claimUID @ [NL])"
    by (simp add: run_snoc prepareResource_ok)
  then show ?thesis
    by (simp add: lst file_lines_record)
qed

theorem prepare_overwrites_resource_file_witness:
  "[(''claim-1'', ''pod-using-a''), (''claim-2'', ''pod-using-b'')] \<noteq> []
   \<and> NL \<notin> set ''claim-2'' \<and> NL \<notin> set ''pod-using-b''
   \<and> file_lines (resourceFile
         (run [Prepare None ''claim-1'' ''pod-using-a'', Prepare None ''claim-2'' ''pod-using-b'']
            (New ''file.dra.example.com'' ''node-1'' ''/plugin.sock'' ''/etc/dra''
               (Some ''stale'') Map.empty)))
       = [''pod-using-b (claim: claim-2)'']"
  using prepare_overwrites_resource_file
    [of "[(''claim-1'', ''pod-using-a''), (''claim-2'', ''pod-using-b'')]"
        "New ''file.dra.example.com'' ''node-1'' ''/plugin.sock'' ''/etc/dra''
               (Some ''stale'') Map.empty"]
  by (simp add: record_line_def NL_def prepareResource_ok file_lines_def)

section \<open>C2: the lines of the resource file and the tracked claims\<close>

text \<open>
  C2, as stated, asks that the set of lines of the resource file be the image of
  \<open>podResources\<close> under the format. After two prepare calls the first claim is
  tracked and its record is not in the file.
\<close>

theorem lines_equal_image_counterexample:
  "set (file_lines (resourceFile (run [Prepare None ''claim-1'' ''pod-using-a'',
                                       Prepare None ''claim-2'' ''pod-using-b'']
                               (New ''file.dra.example.com'' ''node-1'' ''/plugin.sock''
                                  ''/etc/dra'' None Map.empty))))
     \<noteq> record_image (podResources (run [Prepare None ''claim-1'' ''pod-using-a'',
                                       Prepare None ''claim-2'' ''pod-using-b'']
                               (New ''file.dra.example.com'' ''node-1'' ''/plugin.sock''
                                  ''/etc/dra'' None Map.empty)))"
proof -
  let ?d = "run [Prepare None ''claim-1'' ''pod-using-a'', Prepare None ''claim-2'' ''pod-using-b'']
              (New ''file.dra.example.com'' ''node-1'' ''/plugin.sock'' ''/etc/dra'' None Map.empty)"
  have "podResources ?d ''claim-1'' = Some ''pod-using-a''"
    by (simp add: prepareResource_ok New_def)
  then have "record_line ''pod-using-a'' ''claim-1'' \<in> record_image (podResources ?d)"
    unfolding record_image_def by blast
  moreover have "record_line ''pod-using-a'' ''claim-1'' \<notin> set (file_lines (resourceFile ?d))"
    by (simp add: prepareResource_ok New_def file_lines_def record_line_def NL_def)
  ultimately show ?thesis by blast
qed

text \<open>
  C2, amended. Take calls of \<open>prepareResource\<close> and \<open>unprepareResource\<close>
  with claim ids and labels that hold no line feed. Starting from a state where
  every line of the resource file is the record \<open><label> (claim: <id>)\<close> of an
  entry of \<open>podResources\<close> and the file has one line at most (so after \<open>New\<close>
  with no file), after every such call, failed or not, as long as no write of the
  file fails after the file was truncated: every line of the file is the record of
  an entry of \<open>podResources\<close>, and the file has one line at most, so no two lines
  for one claim id. The tracked claims whose record is not in the file are those
  the inclusion leaves out. A write that fails part-way can leave a piece of a
  record in the file; every prepare call that succeeds brings the file back to such
  a state, whatever the state before.
\<close>

theorem resource_file_lines_tracked:
  "(lines_tracked d \<and> (\<forall>c\<in>set cs. one_line_call c \<and> whole_write_call c) \<longrightarrow>
      set (file_lines (resourceFile (run cs d))) \<subseteq> record_image (podResources (run cs d))
      \<and> length (file_lines (resourceFile (run cs d))) \<le> 1)
   \<and> (NL \<notin> set claimUID \<and> NL \<notin> set podName \<longrightarrow>
        lines_tracked (snd (prepareResource None claimUID podName d)))"
proof -
  have "lines_tracked (run cs d)"
    if "lines_tracked d" and "\<forall>c\<in>set cs. one_line_call c \<and> whole_write_call c"
    using lines_tracked_run [OF that(2,1)] .
  then show ?thesis
    using lines_tracked_prepared [of claimUID podName d] by (auto simp: lines_tracked_def)
qed

theorem resource_file_lines_tracked_witness:
  "lines_tracked (New ''file.dra.example.com'' ''node-1'' ''/plugin.sock'' ''/etc/dra'' None Map.empty)
   \<and> one_line_call (Prepare None ''claim-1'' ''pod-using-a'')
   \<and> one_line_call (Prepare (Some (OpenFails ''permission denied'')) ''claim-2'' ''pod-using-b'')
   \<and> one_line_call (Unprepare None None ''claim-1'')
   \<and> whole_write_call (Prepare None ''claim-1'' ''pod-using-a'')
   \<and> whole_write_call (Prepare (Some (OpenFails ''permission denied'')) ''claim-2'' ''pod-using-b'')
   \<and> whole_write_call (Unprepare None None ''claim-1'')
   \<and> set (file_lines (resourceFile
        (run [Prepare None ''claim-1'' ''pod-using-a'',
              Prepare (Some (OpenFails ''permission denied'')) ''claim-2'' ''pod-using-b'',
              Unprepare None None ''claim-1'']
           (New ''file.dra.example.com'' ''node-1'' ''/plugin.sock'' ''/etc/dra'' None Map.empty))))
       \<subseteq> record_image (podResources
        (run [Prepare None ''claim-1'' ''pod-using-a'',
              Prepare (Some (OpenFails ''permission denied'')) ''claim-2'' ''pod-using-b'',
              Unprepare None None ''claim-1'']
           (New ''file.dra.example.com'' ''node-1'' ''/plugin.sock'' ''/etc/dra'' None Map.empty)))
   \<and> length (file_lines (resourceFile
        (run [Prepare None ''claim-1'' ''pod-using-a'',
              Prepare (Some (OpenFails ''permission denied'')) ''claim-2'' ''pod-using-b'',
              Unprepare None None ''claim-1'']
           (New ''file.dra.example.com'' ''node-1'' ''/plugin.sock'' ''/etc/dra'' None Map.empty))))
       \<le> 1
   \<and> NL \<notin> set ''claim-3'' \<and> NL \<notin> set ''pod-using-c''
   \<and> lines_tracked (snd (prepareResource None ''claim-3'' ''pod-using-c''
        (snd (prepareResource (Some (WriteFails 10 ''no space left on device''))
               ''claim-2'' ''pod-using-b''
               (New ''file.dra.example.com'' ''node-1'' ''/plugin.sock'' ''/etc/dra'' None
                  Map.empty)))))"
proof -
  let ?new = "New ''file.dra.example.com'' ''node-1'' ''/plugin.sock'' ''/etc/dra'' None Map.empty"
  let ?cs = "[Prepare None ''claim-1'' ''pod-using-a'',
      Prepare (Some (OpenFails ''permission denied'')) ''claim-2'' ''pod-using-b'',
      Unprepare None None ''claim-1'']"
  have each: "one_line_call (Prepare None ''claim-1'' ''pod-using-a'')"
    "one_line_call (Prepare (Some (OpenFails ''permission denied'')) ''claim-2'' ''pod-using-b'')"
    "one_line_call (Unprepare None None ''claim-1'')"
    "whole_write_call (Prepare None ''claim-1'' ''pod-using-a'')"
    "whole_write_call (Prepare (Some (OpenFails ''permission denied'')) ''claim-2'' ''pod-using-b'')"
    "whole_write_call (Unprepare None None ''claim-1'')"
    by (simp_all add: NL_def)
  then have calls: "\<forall>c\<in>set ?cs. one_line_call c \<and> whole_write_call c"
    by simp
  have init: "lines_tracked ?new"
    by (simp add: lines_tracked_def New_def file_lines_def)
  have free: "NL \<notin> set ''claim-3'' \<and> NL \<notin> set ''pod-using-c''"
    by (simp add: NL_def)
  show ?thesis
    using resource_file_lines_tracked [of ?new ?cs "''claim-3''" "''pod-using-c''"]
      resource_file_lines_tracked [of
        "snd (prepareResource (Some (WriteFails 10 ''no space left on device''))
               ''claim-2'' ''pod-using-b'' ?new)" "[]" "''claim-3''" "''pod-using-c''"]
      each calls init free
    by blast
qed

section \<open>Lemmas on the tracked claims\<close>

lemma tracked_file_exists_step:
  assumes "tracked_file_exists d"
  shows "tracked_file_exists (snd (step c d))"
proof (cases c)
  case (Prepare wflt claimUID podName)
  show ?thesis
  proof (cases wflt)
    case None
    then show ?thesis by (simp add: Prepare prepareResource_ok tracked_file_exists_def)
  next
    case (Some w)
    then show ?thesis
      using assms
      by (simp add: Prepare prepareResource_fail tracked_file_exists_def os_WriteFile_exists)
  qed
next
  case (Unprepare rflt wflt claimUID)
  show ?thesis
    by (cases rule: unprepareResource_cases [of d claimUID rflt wflt])
      (use assms in \<open>simp_all add: Unprepare tracked_file_exists_def os_WriteFile_exists\<close>)
qed

lemma step_tracked:
  assumes "tracked_file_exists d"
  shows "(podResources (snd (step c d)) claimUID \<noteq> None)
           = (if call_uid c = claimUID \<and> fst (step c d) = None then is_prepare c
              else podResources d claimUID \<noteq> None)"
proof (cases c)
  case (Prepare wflt uid podName)
  show ?thesis
  proof (cases wflt)
    case None
    then show ?thesis by (simp add: Prepare prepareResource_ok)
  next
    case (Some msg)
    then show ?thesis by (simp add: Prepare prepareResource_fail)
  qed
next
  case (Unprepare rflt wflt uid)
  show ?thesis
  proof (cases rule: unprepareResource_cases [of d uid rflt wflt])
    case untracked
    then show ?thesis by (auto simp: Unprepare)
  next
    case (read_fail podName msg)
    then show ?thesis by (simp add: Unprepare)
  next
    case (no_file podName)
    with assms have False by (auto simp: tracked_file_exists_def)
    then show ?thesis ..
  next
    case (write_fail podName data msg)
    then show ?thesis by (simp add: Unprepare)
  next
    case (ok podName data)
    then show ?thesis by (simp add: Unprepare)
  qed
qed

lemma run_tracked:
  "tracked_file_exists d \<Longrightarrow>
     (podResources (run cs d) claimUID \<noteq> None)
       = prepared_not_unprepared claimUID (results cs d) (podResources d claimUID \<noteq> None)"
proof (induction cs arbitrary: d)
  case Nil
  then show ?case by simp
next
  case (Cons c cs)
  have "tracked_file_exists (snd (step c d))"
    using Cons.prems by (rule tracked_file_exists_step)
  from Cons.IH [OF this]
  have "(podResources (run (c # cs) d) claimUID \<noteq> None)
          = prepared_not_unprepared claimUID (results cs (snd (step c d)))
              (podResources (snd (step c d)) claimUID \<noteq> None)"
    by (simp only: run.simps)
  also have "\<dots> = prepared_not_unprepared claimUID (results (c # cs) d)
              (podResources d claimUID \<noteq> None)"
    by (simp only: results.simps prepared_not_unprepared.simps step_tracked [OF Cons.prems])
  finally show ?case .
qed

lemma tracked_file_exists_run: "tracked_file_exists d \<Longrightarrow> tracked_file_exists (run cs d)"
  by (induction cs arbitrary: d) (auto intro: tracked_file_exists_step)

lemma tracked_file_exists_New: "tracked_file_exists (New dn nn ps rd file cdi)"
  by (simp add: tracked_file_exists_def New_def)

section \<open>C3: the claims in podResources\<close>

text \<open>
  C3. After every sequence of calls of \<open>prepareResource\<close> and
  \<open>unprepareResource\<close> on a new driver, whatever the faults the calls meet and
  whatever the resource file was at the start, a claim id is in \<open>podResources\<close>
  if and only if a prepare call for it has returned without error and no unprepare
  call for it has returned without error since; and an unprepare call made then that
  returns without error leaves the claim id out of \<open>podResources\<close>.
\<close>

theorem tracked_iff_prepared_not_unprepared:
  "(claimUID \<in> dom (podResources (run cs (New dn nn ps rd file cdi))))
      = prepared_not_unprepared claimUID (results cs (New dn nn ps rd file cdi)) False
   \<and> (\<forall>rflt wflt.
         fst (unprepareResource rflt wflt claimUID (run cs (New dn nn ps rd file cdi))) = None
         \<longrightarrow> claimUID \<notin> dom (podResources
               (snd (unprepareResource rflt wflt claimUID (run cs (New dn nn ps rd file cdi))))))"
proof -
  let ?new = "New dn nn ps rd file cdi"
  have init: "tracked_file_exists ?new" by (rule tracked_file_exists_New)
  have "podResources ?new claimUID = None" by (simp add: New_def)
  then have first: "(claimUID \<in> dom (podResources (run cs ?new)))
      = prepared_not_unprepared claimUID (results cs ?new) False"
    using run_tracked [OF init, of cs claimUID] by (simp add: dom_def)
  have inv: "tracked_file_exists (run cs ?new)"
    using init by (rule tracked_file_exists_run)
  have second: "claimUID \<notin> dom (podResources (snd (unprepareResource rflt wflt claimUID (run cs ?new))))"
    if "fst (unprepareResource rflt wflt claimUID (run cs ?new)) = None" for rflt wflt
    using step_tracked [OF inv, of "Unprepare rflt wflt claimUID" claimUID] that
    by (simp add: dom_def)
  show ?thesis
    using first second by blast
qed

theorem tracked_iff_prepared_not_unprepared_witness:
  "''claim-1'' \<in> dom (podResources
       (run [Prepare None ''claim-1'' ''pod-using-a'', Unprepare (Some ''input/output error'') None ''claim-1'']
          (New ''file.dra.example.com'' ''node-1'' ''/plugin.sock'' ''/etc/dra'' None Map.empty)))
   \<and> prepared_not_unprepared ''claim-1''
       (results [Prepare None ''claim-1'' ''pod-using-a'', Unprepare (Some ''input/output error'') None ''claim-1'']
          (New ''file.dra.example.com'' ''node-1'' ''/plugin.sock'' ''/etc/dra'' None Map.empty)) False
   \<and> fst (unprepareResource None None ''claim-1''
       (run [Prepare None ''claim-1'' ''pod-using-a'', Unprepare (Some ''input/output error'') None ''claim-1'']
          (New ''file.dra.example.com'' ''node-1'' ''/plugin.sock'' ''/etc/dra'' None Map.empty))) = None
   \<and> ''claim-1'' \<notin> dom (podResources (snd (unprepareResource None None ''claim-1''
       (run [Prepare None ''claim-1'' ''pod-using-a'', Unprepare (Some ''input/output error'') None ''claim-1'']
          (New ''file.dra.example.com'' ''node-1'' ''/plugin.sock'' ''/etc/dra'' None Map.empty)))))"
proof -
  let ?d = "run [Prepare None ''claim-1'' ''pod-using-a'', Unprepare (Some ''input/output error'') None ''claim-1'']
          (New ''file.dra.example.com'' ''node-1'' ''/plugin.sock'' ''/etc/dra'' None Map.empty)"
  have d: "?d = (New ''file.dra.example.com'' ''node-1'' ''/plugin.sock'' ''/etc/dra'' None Map.empty)
      \<lparr>podResources := [''claim-1'' \<mapsto> ''pod-using-a''],
       resourceFile := Some (record_line ''pod-using-a'' ''claim-1'' @ [NL])\<rparr>"
    by (simp add: prepareResource_ok unprepareResource_read_fail New_def)
  have ok: "fst (unprepareResource None None ''claim-1'' ?d) = None"
    unfolding d by (simp add: unprepareResource_ok [where podName = "''pod-using-a''"])
  have spec: "prepared_not_unprepared ''claim-1''
       (results [Prepare None ''claim-1'' ''pod-using-a'', Unprepare (Some ''input/output error'') None ''claim-1'']
          (New ''file.dra.example.com'' ''node-1'' ''/plugin.sock'' ''/etc/dra'' None Map.empty)) False"
    by (simp add: prepareResource_ok unprepareResource_read_fail New_def)
  show ?thesis
    using tracked_iff_prepared_not_unprepared [of "''claim-1''"
        "[Prepare None ''claim-1'' ''pod-using-a'', Unprepare (Some ''input/output error'') None ''claim-1'']"
        "''file.dra.example.com''" "''node-1''" "''/plugin.sock''" "''/etc/dra''" None Map.empty]
      ok spec
    by blast
qed

section \<open>C6: unprepare twice\<close>

text \<open>
  C6. A call of \<open>unprepareResource\<close> for a claim id that is not in
  \<open>podResources\<close> returns without error and changes nothing, whatever the
  faults. So when a call of \<open>unprepareResource\<close> has returned without error, a
  second call for the same claim id returns without error too and leaves
  \<open>podResources\<close> and the resource file (the whole state) as the first call
  left them. The second call reads nothing when the first has removed the entry;
  the first keeps the entry only when the file is missing, which does not happen
  while a claim is tracked unless the file is removed from outside, and then the
  second call succeeds as long as its read meets no other fault.
\<close>

theorem unprepare_idempotent:
  "(podResources d claimUID = None \<longrightarrow> unprepareResource rflt wflt claimUID d = (None, d))
   \<and> (fst (unprepareResource rflt wflt claimUID d) = None
        \<and> (tracked_file_exists d \<or> rflt' = None) \<longrightarrow>
        unprepareResource rflt' wflt' claimUID (snd (unprepareResource rflt wflt claimUID d))
          = (None, snd (unprepareResource rflt wflt claimUID d)))"
proof (intro conjI impI)
  assume "podResources d claimUID = None"
  then show "unprepareResource rflt wflt claimUID d = (None, d)"
    by (rule unprepareResource_untracked)
next
  assume a: "fst (unprepareResource rflt wflt claimUID d) = None
      \<and> (tracked_file_exists d \<or> rflt' = None)"
  show "unprepareResource rflt' wflt' claimUID (snd (unprepareResource rflt wflt claimUID d))
          = (None, snd (unprepareResource rflt wflt claimUID d))"
  proof (cases rule: unprepareResource_cases [of d claimUID rflt wflt])
    case untracked
    then show ?thesis by (simp add: unprepareResource_untracked)
  next
    case (read_fail podName msg)
    with a show ?thesis by simp
  next
    case (no_file podName)
    with a have "rflt' = None" by (auto simp: tracked_file_exists_def)
    with no_file show ?thesis by (simp add: unprepareResource_no_file)
  next
    case (write_fail podName data msg)
    with a show ?thesis by simp
  next
    case (ok podName data)
    then show ?thesis by (simp add: unprepareResource_untracked)
  qed
qed

theorem unprepare_idempotent_witness:
  "fst (unprepareResource None None ''abc123''
          (run [Prepare None ''abc123'' ''pod-using-claim-A'']
             (New ''file.dra.example.com'' ''node-1'' ''/plugin.sock'' ''/etc/dra'' None Map.empty))) = None
   \<and> tracked_file_exists (run [Prepare None ''abc123'' ''pod-using-claim-A'']
             (New ''file.dra.example.com'' ''node-1'' ''/plugin.sock'' ''/etc/dra'' None Map.empty))
   \<and> unprepareResource (Some ''permission denied'') (Some (WriteFails 0 ''no space left on device'')) ''abc123''
        (snd (unprepareResource None None ''abc123''
          (run [Prepare None ''abc123'' ''pod-using-claim-A'']
             (New ''file.dra.example.com'' ''node-1'' ''/plugin.sock'' ''/etc/dra'' None Map.empty))))
       = (None, snd (unprepareResource None None ''abc123''
          (run [Prepare None ''abc123'' ''pod-using-claim-A'']
             (New ''file.dra.example.com'' ''node-1'' ''/plugin.sock'' ''/etc/dra'' None Map.empty))))
   \<and> podResources (New ''file.dra.example.com'' ''node-1'' ''/plugin.sock'' ''/etc/dra'' None Map.empty)
        ''abc123'' = None
   \<and> unprepareResource None None ''abc123''
        (New ''file.dra.example.com'' ''node-1'' ''/plugin.sock'' ''/etc/dra'' None Map.empty)
       = (None, New ''file.dra.example.com'' ''node-1'' ''/plugin.sock'' ''/etc/dra'' None Map.empty)"
proof -
  let ?init = "New ''file.dra.example.com'' ''node-1'' ''/plugin.sock'' ''/etc/dra'' None Map.empty"
  let ?d = "run [Prepare None ''abc123'' ''pod-using-claim-A''] ?init"
  have first: "fst (unprepareResource None None ''abc123'' ?d) = None"
    by (simp add: prepareResource_ok unprepareResource_ok [where podName = "''pod-using-claim-A''"])
  have inv: "tracked_file_exists ?d"
    by (simp add: prepareResource_ok tracked_file_exists_def)
  have untracked: "podResources ?init ''abc123'' = None"
    by (simp add: New_def)
  show ?thesis
    using unprepare_idempotent [of ?d "''abc123''" None None "Some ''permission denied''"
        "Some (WriteFails 0 ''no space left on device'')"]
      unprepare_idempotent [of ?init "''abc123''" None None None None]
      first inv untracked
    by blast
qed

section \<open>C7: a failed unprepare\<close>

text \<open>
  C7. Take any state the driver reaches from \<open>New\<close> by calls of
  \<open>prepareResource\<close> and \<open>unprepareResource\<close>, whatever faults they met, and a
  claim id in \<open>podResources\<close>. When the read of the resource file fails, or the
  file is read and its rewrite fails, at the open or part-way,
  \<open>unprepareResource\<close> returns the error and leaves \<open>podResources\<close>, with the
  entry of the claim, as it was; \<open>NodeUnprepareResources\<close> puts the text of the
  error, which is not empty, in the response of the claim and does not delete the
  CDI spec; and the same call made again without a fault returns without error and
  removes the entry, whatever the failed rewrite left in the file. (In these
  states the file of a tracked claim exists, so the read does not fail for want of
  the file, the one failure of the read that \<open>unprepareResource\<close> does not
  report.)
\<close>

theorem unprepare_failure_keeps_claim:
  assumes "d = run cs (New dn nn ps rd file cdi)"
    and "podResources d (Uid claim) = Some podName"
    and "(\<exists>err. os_ReadFile rflt (resourceFile d) = Inl err)
         \<or> (\<exists>err content. fst (os_WriteFile take wflt content (resourceFile d)) = Some err)"
  shows "\<exists>err d'. err \<noteq> []
           \<and> unprepareResource rflt wflt (Uid claim) d = (Some err, d')
           \<and> NodeUnprepareResources join
                [(claim, \<lparr>resource_read = rflt, resource_rewrite = wflt, cdi_remove = rmflt\<rparr>)] d
               = ([Uid claim \<mapsto> \<lparr>Error_unprepare = err\<rparr>], d')
           \<and> podResources d' = podResources d
           \<and> cdiFiles d' = cdiFiles d
           \<and> fst (unprepareResource None None (Uid claim) d') = None
           \<and> podResources (snd (unprepareResource None None (Uid claim) d')) (Uid claim) = None"
proof -
  have "tracked_file_exists d"
    unfolding assms(1) using tracked_file_exists_New by (rule tracked_file_exists_run)
  with assms(2) obtain data where data: "resourceFile d = Some data"
    by (auto simp: tracked_file_exists_def)
  with assms(3) have faulty: "rflt \<noteq> None \<or> wflt \<noteq> None"
    by (auto simp: os_ReadFile_def os_WriteFile_def split: option.splits)
  have "\<exists>err d'. err \<noteq> [] \<and> unprepareResource rflt wflt (Uid claim) d = (Some err, d')
      \<and> podResources d' = podResources d \<and> cdiFiles d' = cdiFiles d \<and> resourceFile d' \<noteq> None"
  proof (cases rule: unprepareResource_cases [of d "Uid claim" rflt wflt])
    case untracked
    with assms(2) show ?thesis by simp
  next
    case (read_fail podName' msg)
    with data show ?thesis by simp
  next
    case (no_file podName')
    with data show ?thesis by simp
  next
    case (write_fail podName' data' w)
    have "snd (os_WriteFile take (Some w) (rewritten (record_line podName' (Uid claim)) data')
        (Some data')) \<noteq> None"
      by (rule os_WriteFile_exists) simp
    with write_fail show ?thesis by auto
  next
    case (ok podName' data')
    with faulty show ?thesis by simp
  qed
  then obtain err d' where err: "err \<noteq> []"
    and failed: "unprepareResource rflt wflt (Uid claim) d = (Some err, d')"
    and kept: "podResources d' = podResources d" "cdiFiles d' = cdiFiles d"
    and exists: "resourceFile d' \<noteq> None"
    by blast
  from failed have batch: "NodeUnprepareResources join
      [(claim, \<lparr>resource_read = rflt, resource_rewrite = wflt, cdi_remove = rmflt\<rparr>)] d
      = ([Uid claim \<mapsto> \<lparr>Error_unprepare = err\<rparr>], d')"
    by (simp add: NodeUnprepareResources_def)
  from exists obtain data' where "resourceFile d' = Some data'" by blast
  moreover have "podResources d' (Uid claim) = Some podName"
    using kept(1) assms(2) by simp
  ultimately have retry: "fst (unprepareResource None None (Uid claim) d') = None"
    "podResources (snd (unprepareResource None None (Uid claim) d')) (Uid claim) = None"
    by (simp_all add: unprepareResource_ok)
  from err failed batch kept retry show ?thesis by blast
qed

theorem unprepare_failure_keeps_claim_witness:
  "podResources (run [Prepare None ''abc123'' ''pod-using-claim-A'']
       (New ''file.dra.example.com'' ''node-1'' ''/plugin.sock'' ''/etc/dra'' None Map.empty))
     (Uid \<lparr>Namespace = ''default'', Uid = ''abc123'', Name = ''claim-A''\<rparr>) = Some ''pod-using-claim-A''
   \<and> fst (os_WriteFile take (Some (WriteFails 0 ''no space left on device'')) []
       (resourceFile (run [Prepare None ''abc123'' ''pod-using-claim-A'']
         (New ''file.dra.example.com'' ''node-1'' ''/plugin.sock'' ''/etc/dra'' None Map.empty))))
     = Some (ErrOther ''no space left on device'')
   \<and> fst (unprepareResource None (Some (WriteFails 0 ''no space left on device''))
        (Uid \<lparr>Namespace = ''default'', Uid = ''abc123'', Name = ''claim-A''\<rparr>)
        (run [Prepare None ''abc123'' ''pod-using-claim-A'']
          (New ''file.dra.example.com'' ''node-1'' ''/plugin.sock'' ''/etc/dra'' None Map.empty)))
      = Some ''failed to write resource file: no space left on device''
   \<and> podResources (snd (unprepareResource None (Some (WriteFails 0 ''no space left on device''))
        (Uid \<lparr>Namespace = ''default'', Uid = ''abc123'', Name = ''claim-A''\<rparr>)
        (run [Prepare None ''abc123'' ''pod-using-claim-A'']
          (New ''file.dra.example.com'' ''node-1'' ''/plugin.sock'' ''/etc/dra'' None Map.empty))))
      = podResources (run [Prepare None ''abc123'' ''pod-using-claim-A'']
          (New ''file.dra.example.com'' ''node-1'' ''/plugin.sock'' ''/etc/dra'' None Map.empty))"
proof -
  let ?d = "run [Prepare None ''abc123'' ''pod-using-claim-A'']
       (New ''file.dra.example.com'' ''node-1'' ''/plugin.sock'' ''/etc/dra'' None Map.empty)"
  let ?c = "\<lparr>Namespace = ''default'', Uid = ''abc123'', Name = ''claim-A''\<rparr>"
  let ?w = "Some (WriteFails 0 ''no space left on device'')"
  have tracked: "podResources ?d (Uid ?c) = Some ''pod-using-claim-A''"
    by (simp add: prepareResource_ok)
  have wfail: "fst (os_WriteFile take ?w [] (resourceFile ?d))
      = Some (ErrOther ''no space left on device'')"
    by (simp add: os_WriteFile_def)
  then have fails: "(\<exists>err. os_ReadFile None (resourceFile ?d) = Inl err)
      \<or> (\<exists>err content. fst (os_WriteFile take ?w content (resourceFile ?d)) = Some err)"
    by blast
  from unprepare_failure_keeps_claim [OF refl tracked fails]
  obtain err d' where "unprepareResource None ?w (Uid ?c) ?d = (Some err, d')"
    and "podResources d' = podResources ?d"
    by blast
  moreover have "fst (unprepareResource None ?w (Uid ?c) ?d)
      = Some ''failed to write resource file: no space left on device''"
    by (simp add: prepareResource_ok New_def
        unprepareResource_write_fail [where podName = "''pod-using-claim-A''"])
  ultimately have "fst (unprepareResource None ?w (Uid ?c) ?d)
        = Some ''failed to write resource file: no space left on device''
      \<and> podResources (snd (unprepareResource None ?w (Uid ?c) ?d)) = podResources ?d"
    by simp
  with tracked wfail show ?thesis by blast
qed

section \<open>Lemmas on the CDI spec functions\<close>

lemma createCDISpec_frame:
  "podResources (snd (createCDISpec join mkflt wflt claimUID d)) = podResources d"
  "resourceFile (snd (createCDISpec join mkflt wflt claimUID d)) = resourceFile d"
  "driverName (snd (createCDISpec join mkflt wflt claimUID d)) = driverName d"
  "resourceDir (snd (createCDISpec join mkflt wflt claimUID d)) = resourceDir d"
  by (simp_all add: createCDISpec_def os_MkdirAll_def os_WriteFile_def Let_def
      split: option.splits write_fault.splits)

lemma deleteCDISpec_frame:
  "podResources (snd (deleteCDISpec join rmflt claimUID d)) = podResources d"
  "resourceFile (snd (deleteCDISpec join rmflt claimUID d)) = resourceFile d"
  "driverName (snd (deleteCDISpec join rmflt claimUID d)) = driverName d"
  "resourceDir (snd (deleteCDISpec join rmflt claimUID d)) = resourceDir d"
  by (simp_all add: deleteCDISpec_def os_Remove_def Let_def split: option.splits)

lemma prepareResource_frame:
  "driverName (snd (prepareResource wflt claimUID podName d)) = driverName d"
  "resourceDir (snd (prepareResource wflt claimUID podName d)) = resourceDir d"
  "cdiFiles (snd (prepareResource wflt claimUID podName d)) = cdiFiles d"
  by (cases wflt; simp add: prepareResource_ok prepareResource_fail)+

lemma unprepareResource_frame:
  "driverName (snd (unprepareResource rflt wflt claimUID d)) = driverName d"
  "resourceDir (snd (unprepareResource rflt wflt claimUID d)) = resourceDir d"
  "cdiFiles (snd (unprepareResource rflt wflt claimUID d)) = cdiFiles d"
  by (cases rule: unprepareResource_cases [of d claimUID rflt wflt]; simp)+

lemma rewritten_own_record:
  "NL \<notin> set pat \<Longrightarrow> rewritten pat (pat @ [NL]) = []"
  by (simp add: rewritten_def strings_Split_snoc_sep strings_Split_no_sep)

text \<open>A batch of one claim, in \<open>NodePrepareResources\<close> and in
  \<open>NodeUnprepareResources\<close>: the state it leaves.\<close>

lemma NodePrepareResources_single_state:
  "extractPodName claim = Inr podName \<Longrightarrow>
     snd (NodePrepareResources join [(claim, flt)] d)
       = (case prepareResource (resource_write flt) (Uid claim) podName d of
            (Some err, d1) \<Rightarrow> d1
          | (None, d1) \<Rightarrow> snd (createCDISpec join (cdi_mkdir flt) (cdi_write flt) (Uid claim) d1))"
  by (simp add: NodePrepareResources_def Let_def split: prod.splits option.splits)

lemma NodeUnprepareResources_single_state:
  "snd (NodeUnprepareResources join [(claim, flt)] d)
     = (case unprepareResource (resource_read flt) (resource_rewrite flt) (Uid claim) d of
          (Some err, d1) \<Rightarrow> d1
        | (None, d1) \<Rightarrow> snd (deleteCDISpec join (cdi_remove flt) (Uid claim) d1))"
  by (simp add: NodeUnprepareResources_def split: prod.splits option.splits)

section \<open>C5: prepare, then unprepare\<close>

text \<open>
  C5, as stated, holds of every claim id. A claim id with a line feed in it gives
  a record that is no line of the file: the prepare writes it over two lines, the
  unprepare finds no line equal to its search pattern and writes the two lines back,
  and the file is not empty after the round trip.
\<close>

theorem round_trip_counterexample:
  "record_line ''pod-using-claim-A'' (''abc'' @ [NL] @ ''123'')
     \<notin> set (file_lines (resourceFile
           (run [Prepare None (''abc'' @ [NL] @ ''123'') ''pod-using-claim-A'']
              (New ''file.dra.example.com'' ''node-1'' ''/plugin.sock'' ''/etc/dra'' None Map.empty))))
   \<and> resourceFile
        (run [Prepare None (''abc'' @ [NL] @ ''123'') ''pod-using-claim-A'',
              Unprepare None None (''abc'' @ [NL] @ ''123'')]
           (New ''file.dra.example.com'' ''node-1'' ''/plugin.sock'' ''/etc/dra'' None Map.empty))
      = Some (''pod-using-claim-A (claim: abc'' @ [NL] @ ''123)'' @ [NL])"
  by (simp add: prepareResource_ok
      unprepareResource_ok [where podName = "''pod-using-claim-A''"]
      New_def file_lines_def record_line_def rewritten_def strings_HasSuffix_def NL_def)

text \<open>
  C5, amended. For a claim whose id and derived consumer label \<open>L\<close> hold no
  line feed: a prepare of the claim whose write succeeds leaves the resource file
  with the one line \<open>L (claim: X)\<close>; an unprepare of a tracked claim that reads
  and rewrites the file removes the lines equal to \<open>L (claim: X)\<close> and keeps
  every other non-empty line, in order; and \<open>NodeUnprepareResources\<close> for the
  claim, right after \<open>NodePrepareResources\<close> for it, leaves the file empty.
\<close>

theorem prepare_unprepare_round_trip:
  assumes "extractPodName claim = Inr podName"
    and "NL \<notin> set (Uid claim)" and "NL \<notin> set podName"
    and "resource_write pflt = None"
    and "resource_read uflt = None" and "resource_rewrite uflt = None"
  shows "resourceFile (snd (NodePrepareResources join [(claim, pflt)] d))
           = Some (record_line podName (Uid claim) @ [NL])
       \<and> file_lines (resourceFile (snd (NodePrepareResources join [(claim, pflt)] d)))
           = [record_line podName (Uid claim)]
       \<and> (podResources d' (Uid claim) = Some podName \<and> resourceFile d' = Some data \<longrightarrow>
           file_lines (resourceFile (snd (NodeUnprepareResources join [(claim, uflt)] d')))
             = filter (\<lambda>line. line \<noteq> record_line podName (Uid claim)) (file_lines (Some data)))
       \<and> resourceFile (snd (NodeUnprepareResources join [(claim, uflt)]
             (snd (NodePrepareResources join [(claim, pflt)] d)))) = Some []"
proof -
  let ?p = "snd (NodePrepareResources join [(claim, pflt)] d)"
  have written: "resourceFile ?p = Some (record_line podName (Uid claim) @ [NL])"
    and tracked: "podResources ?p (Uid claim) = Some podName"
    using assms(4)
    by (simp_all add: NodePrepareResources_single_state [OF assms(1)] prepareResource_ok
        createCDISpec_frame)
  have one_line: "file_lines (resourceFile ?p) = [record_line podName (Uid claim)]"
    using assms(2,3) by (simp add: written file_lines_record)
  have unprep: "resourceFile (snd (NodeUnprepareResources join [(claim, uflt)] s))
      = Some (rewritten (record_line podName (Uid claim)) content)"
    if "podResources s (Uid claim) = Some podName" and "resourceFile s = Some content"
    for s content
    using assms(5,6) that
    by (simp add: NodeUnprepareResources_single_state unprepareResource_ok deleteCDISpec_frame)
  have removes: "podResources d' (Uid claim) = Some podName \<and> resourceFile d' = Some data \<longrightarrow>
           file_lines (resourceFile (snd (NodeUnprepareResources join [(claim, uflt)] d')))
             = filter (\<lambda>line. line \<noteq> record_line podName (Uid claim)) (file_lines (Some data))"
    by (simp add: unprep file_lines_rewritten)
  have empty: "resourceFile (snd (NodeUnprepareResources join [(claim, uflt)] ?p)) = Some []"
    using assms(2,3)
    by (simp add: unprep [OF tracked written] rewritten_own_record NL_notin_record_line)
  show ?thesis
    using written one_line removes empty by blast
qed

text \<open>The scenario of the specification: the claim of id \<open>abc123\<close> and name
  \<open>claim-A\<close>.\<close>

theorem prepare_unprepare_round_trip_witness:
  "extractPodName \<lparr>Namespace = ''default'', Uid = ''abc123'', Name = ''claim-A''\<rparr>
      = Inr ''pod-using-claim-A''
   \<and> NL \<notin> set (Uid \<lparr>Namespace = ''default'', Uid = ''abc123'', Name = ''claim-A''\<rparr>)
   \<and> NL \<notin> set ''pod-using-claim-A''
   \<and> resourceFile (snd (NodePrepareResources (\<lambda>dir name. dir @ ''/'' @ name)
         [(\<lparr>Namespace = ''default'', Uid = ''abc123'', Name = ''claim-A''\<rparr>,
           \<lparr>resource_write = None, cdi_mkdir = None, cdi_write = None\<rparr>)]
         (New ''file.dra.example.com'' ''node-1'' ''/plugin.sock'' ''/etc/dra'' None Map.empty)))
       = Some (''pod-using-claim-A (claim: abc123)'' @ [NL])
   \<and> resourceFile (snd (NodeUnprepareResources (\<lambda>dir name. dir @ ''/'' @ name)
         [(\<lparr>Namespace = ''default'', Uid = ''abc123'', Name = ''claim-A''\<rparr>,
           \<lparr>resource_read = None, resource_rewrite = None, cdi_remove = None\<rparr>)]
         (snd (NodePrepareResources (\<lambda>dir name. dir @ ''/'' @ name)
           [(\<lparr>Namespace = ''default'', Uid = ''abc123'', Name = ''claim-A''\<rparr>,
             \<lparr>resource_write = None, cdi_mkdir = None, cdi_write = None\<rparr>)]
           (New ''file.dra.example.com'' ''node-1'' ''/plugin.sock'' ''/etc/dra'' None Map.empty)))))
       = Some []"
proof -
  let ?c = "\<lparr>Namespace = ''default'', Uid = ''abc123'', Name = ''claim-A''\<rparr>"
  have label: "extractPodName ?c = Inr ''pod-using-claim-A''"
    by (simp add: extractPodName_def)
  have uid: "NL \<notin> set (Uid ?c)" and pod: "NL \<notin> set ''pod-using-claim-A''"
    by (simp_all add: NL_def)
  have pf: "resource_write \<lparr>resource_write = None, cdi_mkdir = None, cdi_write = None\<rparr> = None"
    by simp
  have uf: "resource_read \<lparr>resource_read = None, resource_rewrite = None, cdi_remove = None\<rparr> = None"
    "resource_rewrite \<lparr>resource_read = None, resource_rewrite = None, cdi_remove = None\<rparr> = None"
    by simp_all
  show ?thesis
    using prepare_unprepare_round_trip [OF label uid pod pf uf,
        of "\<lambda>dir name. dir @ ''/'' @ name"
           "New ''file.dra.example.com'' ''node-1'' ''/plugin.sock'' ''/etc/dra'' None Map.empty"]
      label uid pod
    by (simp add: record_line_def)
qed

section \<open>Lemmas on the injection descriptor\<close>

lemma descriptor_present_frame:
  "driverName d' = driverName d \<Longrightarrow> resourceDir d' = resourceDir d \<Longrightarrow>
     cdiFiles d' = cdiFiles d \<Longrightarrow> descriptor_present join d' = descriptor_present join d"
  by (simp add: descriptor_present_def cdiFilePath_def filePath_def
      split: option.splits cdi_bytes.splits)

lemma createCDISpec_cases:
  obtains
    (mkdir_fail) msg where "mkflt = Some msg"
      "createCDISpec join mkflt wflt claimUID d = (Some (''failed to create CDI directory: '' @ msg), d)"
  | (write_fail) w d' where "mkflt = None" "wflt = Some w"
      "createCDISpec join mkflt wflt claimUID d = (Some (''failed to write CDI spec: '' @ fault_text w), d')"
      "podResources d' = podResources d" "resourceFile d' = resourceFile d"
      "driverName d' = driverName d" "resourceDir d' = resourceDir d"
      "whole_write wflt \<longrightarrow> d' = d"
  | (ok) spec where "mkflt = None" "wflt = None"
      "has_resource_mount (filePath join d) spec"
      "createCDISpec join mkflt wflt claimUID d
         = (None, d\<lparr>cdiFiles := (cdiFiles d)(cdiFilePath join d \<mapsto> Encoding spec)\<rparr>)"
proof (cases mkflt)
  case (Some msg)
  then show ?thesis
    using mkdir_fail by (simp add: createCDISpec_def os_MkdirAll_def)
next
  case None
  note mk = None
  show ?thesis
  proof (cases wflt)
    case (Some w)
    let ?spec = "\<lparr>CDIVersion = cdiVersion, Kind = driverName d @ ''/file'',
        Devices_cdi = [\<lparr>Name_cdi = resourceFileName,
          ContainerEdits = \<lparr>Mounts = [\<lparr>HostPath = filePath join d,
            ContainerPath = filePath join d, Options = [''ro'', ''bind'']\<rparr>]\<rparr>\<rparr>]\<rparr>"
    let ?d' = "d\<lparr>cdiFiles := (cdiFiles d)(cdiFilePath join d :=
        snd (os_WriteFile first_bytes (Some w) (Encoding ?spec) (cdiFiles d (cdiFilePath join d))))\<rparr>"
    have result: "createCDISpec join mkflt wflt claimUID d
        = (Some (''failed to write CDI spec: '' @ fault_text w), ?d')"
      using mk Some
      by (cases w) (simp_all add: createCDISpec_def os_MkdirAll_def os_WriteFile_def Let_def)
    have whole: "whole_write wflt \<longrightarrow> ?d' = d"
      by (simp add: Some os_WriteFile_whole)
    show ?thesis
      by (rule write_fail [OF mk Some result _ _ _ _ whole]) simp_all
  next
    case None
    let ?spec = "\<lparr>CDIVersion = cdiVersion, Kind = driverName d @ ''/file'',
        Devices_cdi = [\<lparr>Name_cdi = resourceFileName,
          ContainerEdits = \<lparr>Mounts = [\<lparr>HostPath = filePath join d,
            ContainerPath = filePath join d, Options = [''ro'', ''bind'']\<rparr>]\<rparr>\<rparr>]\<rparr>"
    have mount: "has_resource_mount (filePath join d) ?spec"
      by (simp add: has_resource_mount_def)
    have "createCDISpec join mkflt wflt claimUID d
         = (None, d\<lparr>cdiFiles := (cdiFiles d)(cdiFilePath join d \<mapsto> Encoding ?spec)\<rparr>)"
      using mk None by (simp add: createCDISpec_def os_MkdirAll_def os_WriteFile_def Let_def)
    with mk None mount show ?thesis by (rule ok)
  qed
qed

text \<open>A write of the CDI spec that fails part-way leaves the first bytes of the
  encoding in the file, in place of what the file held.\<close>

lemma createCDISpec_part_way:
  "\<exists>spec. createCDISpec join None (Some (WriteFails n msg)) claimUID d
     = (Some (''failed to write CDI spec: '' @ msg),
        d\<lparr>cdiFiles := (cdiFiles d)(cdiFilePath join d \<mapsto> Cut n spec)\<rparr>)"
  by (simp add: createCDISpec_def os_MkdirAll_def os_WriteFile_def Let_def) blast

lemma createCDISpec_present:
  "fst (createCDISpec join mkflt wflt claimUID d) = None \<Longrightarrow>
     descriptor_present join (snd (createCDISpec join mkflt wflt claimUID d))"
  by (cases rule: createCDISpec_cases [of mkflt join wflt claimUID d])
    (simp_all add: descriptor_present_def cdiFilePath_def filePath_def)

lemma createCDISpec_keeps:
  "whole_write wflt \<Longrightarrow> descriptor_present join d \<Longrightarrow>
     descriptor_present join (snd (createCDISpec join mkflt wflt claimUID d))"
  by (cases rule: createCDISpec_cases [of mkflt join wflt claimUID d])
    (simp_all add: descriptor_present_def cdiFilePath_def filePath_def)

lemma createCDISpec_error: "fst (createCDISpec join mkflt wflt claimUID d) = Some err \<Longrightarrow> err \<noteq> []"
  by (cases rule: createCDISpec_cases [of mkflt join wflt claimUID d]) auto

lemma prepareResource_error: "fst (prepareResource wflt claimUID podName d) = Some err \<Longrightarrow> err \<noteq> []"
  by (cases wflt) (auto simp: prepareResource_ok prepareResource_fail)

lemma prepareResource_keeps:
  "descriptor_present join (snd (prepareResource wflt claimUID podName d)) = descriptor_present join d"
  by (rule descriptor_present_frame) (simp_all add: prepareResource_frame)

text \<open>One turn of the loop of \<open>NodePrepareResources\<close>.\<close>

lemma prepare_loop_Cons:
  "extractPodName claim = Inr podName \<Longrightarrow>
   prepare_loop join ((claim, flt) # rest) resp d =
     (let r1 = prepareResource (resource_write flt) (Uid claim) podName d;
          r2 = createCDISpec join (cdi_mkdir flt) (cdi_write flt) (Uid claim) (snd r1)
      in case fst r1 of
           Some err \<Rightarrow> prepare_loop join rest (resp(Uid claim \<mapsto> \<lparr>Devices = [], Error = err\<rparr>)) (snd r1)
         | None \<Rightarrow>
             (case fst r2 of
                Some err \<Rightarrow>
                  prepare_loop join rest (resp(Uid claim \<mapsto> \<lparr>Devices = [], Error = err\<rparr>)) (snd r2)
              | None \<Rightarrow>
                  prepare_loop join rest
                    (resp(Uid claim \<mapsto>
                       \<lparr>Devices = [\<lparr>PoolName = ''default'', DeviceName = resourceFileName,
                                     CdiDeviceIds = [driverName d @ ''/file='' @ resourceFileName]\<rparr>],
                        Error = []\<rparr>)) (snd r2)))"
proof -
  assume pod: "extractPodName claim = Inr podName"
  obtain e1 d1 where r1: "prepareResource (resource_write flt) (Uid claim) podName d = (e1, d1)"
    by (cases "prepareResource (resource_write flt) (Uid claim) podName d")
  obtain e2 d2 where r2: "createCDISpec join (cdi_mkdir flt) (cdi_write flt) (Uid claim) d1 = (e2, d2)"
    by (cases "createCDISpec join (cdi_mkdir flt) (cdi_write flt) (Uid claim) d1")
  have name: "driverName d1 = driverName d"
    using prepareResource_frame(1) [of "resource_write flt" "Uid claim" podName d] r1 by simp
  show ?thesis
  proof (cases e1)
    case (Some err)
    then show ?thesis by (simp add: pod r1)
  next
    case None
    then show ?thesis by (cases e2) (simp_all add: pod r1 r2 name)
  qed
qed

lemma prepare_loop_keeps:
  "\<forall>(claim, flt)\<in>set req. whole_write (cdi_write flt) \<Longrightarrow> descriptor_present join d
     \<Longrightarrow> descriptor_present join (snd (prepare_loop join req resp d))"
proof (induction req arbitrary: resp d)
  case Nil
  then show ?case by simp
next
  case (Cons a req)
  obtain claim flt where a: "a = (claim, flt)" by (cases a)
  from Cons.prems(1) have whole: "whole_write (cdi_write flt)"
    and rest: "\<forall>(claim, flt)\<in>set req. whole_write (cdi_write flt)"
    by (simp_all add: a)
  show ?case
  proof (cases "extractPodName claim")
    case (Inl p)
    then show ?thesis using Cons.prems(2) by (simp add: a)
  next
    case (Inr podName)
    let ?r1 = "prepareResource (resource_write flt) (Uid claim) podName d"
    let ?r2 = "createCDISpec join (cdi_mkdir flt) (cdi_write flt) (Uid claim) (snd ?r1)"
    have p1: "descriptor_present join (snd ?r1)"
      using Cons.prems(2) by (simp add: prepareResource_keeps)
    with whole have p2: "descriptor_present join (snd ?r2)"
      by (rule createCDISpec_keeps)
    show ?thesis
    proof (cases "fst ?r1")
      case (Some err)
      then have "prepare_loop join (a # req) resp d
          = prepare_loop join req (resp(Uid claim \<mapsto> \<lparr>Devices = [], Error = err\<rparr>)) (snd ?r1)"
        by (simp only: a prepare_loop_Cons [OF Inr] Let_def option.case)
      then show ?thesis using Cons.IH [OF rest p1] by simp
    next
      case None
      note r1 = None
      show ?thesis
      proof (cases "fst ?r2")
        case (Some err)
        then have "prepare_loop join (a # req) resp d
            = prepare_loop join req (resp(Uid claim \<mapsto> \<lparr>Devices = [], Error = err\<rparr>)) (snd ?r2)"
          using r1 by (simp only: a prepare_loop_Cons [OF Inr] Let_def option.case)
        then show ?thesis using Cons.IH [OF rest p2] by simp
      next
        case None
        then have "prepare_loop join (a # req) resp d
            = prepare_loop join req
                (resp(Uid claim \<mapsto>
                   \<lparr>Devices = [\<lparr>PoolName = ''default'', DeviceName = resourceFileName,
                        CdiDeviceIds = [driverName d @ ''/file='' @ resourceFileName]\<rparr>],
                    Error = []\<rparr>)) (snd ?r2)"
          using r1 by (simp only: a prepare_loop_Cons [OF Inr] Let_def option.case)
        then show ?thesis using Cons.IH [OF rest p2] by simp
      qed
    qed
  qed
qed

lemma prepare_loop_present:
  "\<forall>(claim, flt)\<in>set req. whole_write (cdi_write flt) \<Longrightarrow>
   fst (prepare_loop join req resp d) = Inr resp' \<Longrightarrow> resp' claimUID = Some r \<Longrightarrow> Error r = []
     \<Longrightarrow> resp claimUID = Some r \<or> descriptor_present join (snd (prepare_loop join req resp d))"
proof (induction req arbitrary: resp d)
  case Nil
  then show ?case by simp
next
  case (Cons a req)
  obtain claim flt where a: "a = (claim, flt)" by (cases a)
  from Cons.prems(1) have rest: "\<forall>(claim, flt)\<in>set req. whole_write (cdi_write flt)"
    by (simp add: a)
  show ?case
  proof (cases "extractPodName claim")
    case (Inl p)
    then show ?thesis using Cons.prems(2) by (simp add: a)
  next
    case (Inr podName)
    let ?r1 = "prepareResource (resource_write flt) (Uid claim) podName d"
    let ?r2 = "createCDISpec join (cdi_mkdir flt) (cdi_write flt) (Uid claim) (snd ?r1)"
    have failed: "resp claimUID = Some r
        \<or> descriptor_present join (snd (prepare_loop join (a # req) resp d))"
      if eq: "prepare_loop join (a # req) resp d
          = prepare_loop join req (resp(Uid claim \<mapsto> \<lparr>Devices = [], Error = err\<rparr>)) d1"
        and err: "err \<noteq> []" for err d1
    proof -
      from Cons.prems(2)
      have "fst (prepare_loop join req (resp(Uid claim \<mapsto> \<lparr>Devices = [], Error = err\<rparr>)) d1)
          = Inr resp'"
        by (simp only: eq)
      from Cons.IH [OF rest this Cons.prems(3,4)]
      have "(resp(Uid claim \<mapsto> \<lparr>Devices = [], Error = err\<rparr>)) claimUID = Some r
          \<or> descriptor_present join (snd (prepare_loop join (a # req) resp d))"
        by (simp only: eq)
      then show ?thesis
      proof
        assume upd: "(resp(Uid claim \<mapsto> \<lparr>Devices = [], Error = err\<rparr>)) claimUID = Some r"
        have "claimUID \<noteq> Uid claim"
        proof
          assume "claimUID = Uid claim"
          with upd have "r = \<lparr>Devices = [], Error = err\<rparr>" by simp
          with Cons.prems(4) err show False by simp
        qed
        with upd show ?thesis by simp
      next
        assume "descriptor_present join (snd (prepare_loop join (a # req) resp d))"
        then show ?thesis ..
      qed
    qed
    show ?thesis
    proof (cases "fst ?r1")
      case (Some err)
      then have eq: "prepare_loop join (a # req) resp d
          = prepare_loop join req (resp(Uid claim \<mapsto> \<lparr>Devices = [], Error = err\<rparr>)) (snd ?r1)"
        by (simp only: a prepare_loop_Cons [OF Inr] Let_def option.case)
      have "err \<noteq> []" using Some by (rule prepareResource_error)
      with eq show ?thesis by (rule failed)
    next
      case None
      note r1 = None
      show ?thesis
      proof (cases "fst ?r2")
        case (Some err)
        then have eq: "prepare_loop join (a # req) resp d
            = prepare_loop join req (resp(Uid claim \<mapsto> \<lparr>Devices = [], Error = err\<rparr>)) (snd ?r2)"
          using r1 by (simp only: a prepare_loop_Cons [OF Inr] Let_def option.case)
        have "err \<noteq> []" using Some by (rule createCDISpec_error)
        with eq show ?thesis by (rule failed)
      next
        case None
        then have eq: "prepare_loop join (a # req) resp d
            = prepare_loop join req
                (resp(Uid claim \<mapsto>
                   \<lparr>Devices = [\<lparr>PoolName = ''default'', DeviceName = resourceFileName,
                        CdiDeviceIds = [driverName d @ ''/file='' @ resourceFileName]\<rparr>],
                    Error = []\<rparr>)) (snd ?r2)"
          using r1 by (simp only: a prepare_loop_Cons [OF Inr] Let_def option.case)
        have "descriptor_present join (snd ?r2)"
          using None by (rule createCDISpec_present)
        with rest have "descriptor_present join (snd (prepare_loop join (a # req) resp d))"
          unfolding eq by (rule prepare_loop_keeps)
        then show ?thesis ..
      qed
    qed
  qed
qed

lemma deleteCDISpec_removes:
  "cdiFiles (snd (deleteCDISpec join None claimUID d)) (cdiFilePath join d) = None"
  by (simp add: deleteCDISpec_def os_Remove_def Let_def split: option.splits)

lemma prepare_loop_frame:
  "driverName (snd (prepare_loop join req resp d)) = driverName d
   \<and> resourceDir (snd (prepare_loop join req resp d)) = resourceDir d"
proof (induction req arbitrary: resp d)
  case Nil
  then show ?case by simp
next
  case (Cons a req)
  obtain claim flt where a: "a = (claim, flt)" by (cases a)
  show ?case
  proof (cases "extractPodName claim")
    case (Inl p)
    then show ?thesis by (simp add: a)
  next
    case (Inr podName)
    show ?thesis
      unfolding a prepare_loop_Cons [OF Inr] Let_def
      by (simp add: Cons.IH prepareResource_frame createCDISpec_frame split: option.splits)
  qed
qed

section \<open>C4: the injection descriptor file\<close>

text \<open>
  C4, as stated, asks for one descriptor file per claim, deleted when the unprepare
  of that claim completes and only then. The path of the file is built from the
  driver name and the resource name, not from the claim id, so all claims share one
  file; after a prepare of the claim \<open>uid-x\<close>, an unprepare of another claim,
  \<open>uid-y\<close>, that was never prepared deletes the file while \<open>uid-x\<close> is still
  prepared.
\<close>

theorem descriptor_per_claim_counterexample:
  "cdiFiles (snd (NodePrepareResources (\<lambda>dir name. dir @ ''/'' @ name)
        [(\<lparr>Namespace = ''default'', Uid = ''uid-x'', Name = ''claim-x''\<rparr>,
          \<lparr>resource_write = None, cdi_mkdir = None, cdi_write = None\<rparr>)]
        (New ''file.dra.example.com'' ''node-1'' ''/plugin.sock'' ''/etc/dra'' None Map.empty)))
     ''/var/run/cdi/file.dra.example.com-file-file1.json'' \<noteq> None
   \<and> podResources (snd (NodeUnprepareResources (\<lambda>dir name. dir @ ''/'' @ name)
        [(\<lparr>Namespace = ''default'', Uid = ''uid-y'', Name = ''claim-y''\<rparr>,
          \<lparr>resource_read = None, resource_rewrite = None, cdi_remove = None\<rparr>)]
        (snd (NodePrepareResources (\<lambda>dir name. dir @ ''/'' @ name)
          [(\<lparr>Namespace = ''default'', Uid = ''uid-x'', Name = ''claim-x''\<rparr>,
            \<lparr>resource_write = None, cdi_mkdir = None, cdi_write = None\<rparr>)]
          (New ''file.dra.example.com'' ''node-1'' ''/plugin.sock'' ''/etc/dra'' None Map.empty)))))
     ''uid-x'' = Some ''pod-using-claim-x''
   \<and> dom (cdiFiles (snd (NodeUnprepareResources (\<lambda>dir name. dir @ ''/'' @ name)
        [(\<lparr>Namespace = ''default'', Uid = ''uid-y'', Name = ''claim-y''\<rparr>,
          \<lparr>resource_read = None, resource_rewrite = None, cdi_remove = None\<rparr>)]
        (snd (NodePrepareResources (\<lambda>dir name. dir @ ''/'' @ name)
          [(\<lparr>Namespace = ''default'', Uid = ''uid-x'', Name = ''claim-x''\<rparr>,
            \<lparr>resource_write = None, cdi_mkdir = None, cdi_write = None\<rparr>)]
          (New ''file.dra.example.com'' ''node-1'' ''/plugin.sock'' ''/etc/dra'' None Map.empty)))))) = {}"
proof -
  let ?join = "\<lambda>dir name. dir @ ''/'' @ name"
  let ?x = "\<lparr>Namespace = ''default'', Uid = ''uid-x'', Name = ''claim-x''\<rparr>"
  let ?new = "New ''file.dra.example.com'' ''node-1'' ''/plugin.sock'' ''/etc/dra'' None Map.empty"
  have pod: "extractPodName ?x = Inr ''pod-using-claim-x''"
    by (simp add: extractPodName_def)
  have prepared: "snd (NodePrepareResources ?join
        [(?x, \<lparr>resource_write = None, cdi_mkdir = None, cdi_write = None\<rparr>)] ?new)
      = ?new\<lparr>podResources := [''uid-x'' \<mapsto> ''pod-using-claim-x''],
              resourceFile := Some (record_line ''pod-using-claim-x'' ''uid-x'' @ [NL]),
              cdiFiles := [''/var/run/cdi/file.dra.example.com-file-file1.json'' \<mapsto>
                Encoding \<lparr>CDIVersion = ''0.5.0'', Kind = ''file.dra.example.com/file'',
                 Devices_cdi = [\<lparr>Name_cdi = ''file1'',
                   ContainerEdits = \<lparr>Mounts = [\<lparr>HostPath = ''/etc/dra/file1'',
                     ContainerPath = ''/etc/dra/file1'', Options = [''ro'', ''bind'']\<rparr>]\<rparr>\<rparr>]\<rparr>]\<rparr>"
    by (simp add: NodePrepareResources_single_state [OF pod] prepareResource_ok
        createCDISpec_def os_MkdirAll_def os_WriteFile_def Let_def New_def
        cdiFilePath_def filePath_def strings_ReplaceAll_def cdiDir_def cdiVersion_def
        resourceFileName_def)
  show ?thesis
    unfolding prepared
    by (simp add: NodeUnprepareResources_single_state unprepareResource_untracked
        deleteCDISpec_def os_Remove_def Let_def New_def
        cdiFilePath_def strings_ReplaceAll_def cdiDir_def resourceFileName_def)
qed

text \<open>
  C4, amended. There is one injection-descriptor file for the driver and its
  resource, at a path that does not depend on the claim. When
  \<open>NodePrepareResources\<close> returns a result without error for a claim, and no
  write of the descriptor for a claim of the batch has failed after the file was
  truncated, the file exists at that path and holds the encoding of a spec with a
  mount entry whose host path and consumer-visible path both equal the path of the
  resource file and whose options include \<open>ro\<close> and \<open>bind\<close>; the file is
  written by the prepare of every claim. An unprepare of any claim, prepared or not,
  whose \<open>unprepareResource\<close> returns without error deletes the file, unless the
  removal fails.
\<close>

theorem descriptor_file_shared_by_claims:
  assumes "fst (NodePrepareResources join req d) = Inr resp"
    and "resp claimUID = Some r" and "Error r = []"
    and "\<forall>(claim, flt)\<in>set req. whole_write (cdi_write flt)"
  shows "(\<exists>spec. cdiFiles (snd (NodePrepareResources join req d)) (cdiFilePath join d)
                   = Some (Encoding spec)
            \<and> has_resource_mount (filePath join d) spec)
       \<and> (\<forall>claim' uflt d'.
            fst (unprepareResource (resource_read uflt) (resource_rewrite uflt) (Uid claim') d') = None
            \<and> cdi_remove uflt = None \<longrightarrow>
            cdiFiles (snd (NodeUnprepareResources join [(claim', uflt)] d')) (cdiFilePath join d') = None)"
proof -
  let ?p = "snd (NodePrepareResources join req d)"
  have "resp claimUID = Some r \<Longrightarrow> Map.empty claimUID = Some r \<or> descriptor_present join ?p"
    using prepare_loop_present [OF assms(4), of join Map.empty d resp claimUID r] assms(1,3)
    unfolding NodePrepareResources_def by blast
  with assms(2) have present: "descriptor_present join ?p" by simp
  have "driverName ?p = driverName d" and "resourceDir ?p = resourceDir d"
    unfolding NodePrepareResources_def using prepare_loop_frame by blast+
  then have "cdiFilePath join ?p = cdiFilePath join d" and "filePath join ?p = filePath join d"
    by (simp_all add: cdiFilePath_def filePath_def)
  with present have first: "\<exists>spec. cdiFiles ?p (cdiFilePath join d) = Some (Encoding spec)
            \<and> has_resource_mount (filePath join d) spec"
    by (simp add: descriptor_present_def split: option.splits cdi_bytes.splits)
  have second: "cdiFiles (snd (NodeUnprepareResources join [(claim', uflt)] d')) (cdiFilePath join d') = None"
    if ok: "fst (unprepareResource (resource_read uflt) (resource_rewrite uflt) (Uid claim') d') = None"
      and rm: "cdi_remove uflt = None" for claim' uflt d'
  proof -
    let ?u = "unprepareResource (resource_read uflt) (resource_rewrite uflt) (Uid claim') d'"
    obtain e d1 where u: "?u = (e, d1)" by (cases ?u)
    with ok have e: "e = None" by simp
    have "driverName d1 = driverName d'"
      using unprepareResource_frame(1) [of "resource_read uflt" "resource_rewrite uflt" "Uid claim'" d'] u
      by simp
    then have path: "cdiFilePath join d1 = cdiFilePath join d'"
      by (simp add: cdiFilePath_def)
    have "snd (NodeUnprepareResources join [(claim', uflt)] d')
        = snd (deleteCDISpec join None (Uid claim') d1)"
      by (simp add: NodeUnprepareResources_single_state u e rm)
    then show ?thesis
      using deleteCDISpec_removes [of join "Uid claim'" d1] by (simp add: path)
  qed
  show ?thesis
    using first second by blast
qed

theorem descriptor_file_shared_by_claims_witness:
  "fst (NodePrepareResources (\<lambda>dir name. dir @ ''/'' @ name)
        [(\<lparr>Namespace = ''default'', Uid = ''uid-x'', Name = ''claim-x''\<rparr>,
          \<lparr>resource_write = None, cdi_mkdir = None, cdi_write = None\<rparr>)]
        (New ''file.dra.example.com'' ''node-1'' ''/plugin.sock'' ''/etc/dra'' None Map.empty))
     = Inr [''uid-x'' \<mapsto>
          \<lparr>Devices = [\<lparr>PoolName = ''default'', DeviceName = ''file1'',
                        CdiDeviceIds = [''file.dra.example.com/file=file1'']\<rparr>],
           Error = []\<rparr>]
   \<and> whole_write (cdi_write \<lparr>resource_write = None, cdi_mkdir = None, cdi_write = None\<rparr>)
   \<and> (\<exists>spec. cdiFiles (snd (NodePrepareResources (\<lambda>dir name. dir @ ''/'' @ name)
            [(\<lparr>Namespace = ''default'', Uid = ''uid-x'', Name = ''claim-x''\<rparr>,
              \<lparr>resource_write = None, cdi_mkdir = None, cdi_write = None\<rparr>)]
            (New ''file.dra.example.com'' ''node-1'' ''/plugin.sock'' ''/etc/dra'' None Map.empty)))
          (cdiFilePath (\<lambda>dir name. dir @ ''/'' @ name)
            (New ''file.dra.example.com'' ''node-1'' ''/plugin.sock'' ''/etc/dra'' None Map.empty))
          = Some (Encoding spec)
        \<and> has_resource_mount
            (filePath (\<lambda>dir name. dir @ ''/'' @ name)
              (New ''file.dra.example.com'' ''node-1'' ''/plugin.sock'' ''/etc/dra'' None Map.empty))
            spec)
   \<and> fst (unprepareResource None None ''uid-y''
        (New ''file.dra.example.com'' ''node-1'' ''/plugin.sock'' ''/etc/dra'' None Map.empty)) = None
   \<and> cdiFiles (snd (NodeUnprepareResources (\<lambda>dir name. dir @ ''/'' @ name)
        [(\<lparr>Namespace = ''default'', Uid = ''uid-y'', Name = ''claim-y''\<rparr>,
          \<lparr>resource_read = None, resource_rewrite = None, cdi_remove = None\<rparr>)]
        (New ''file.dra.example.com'' ''node-1'' ''/plugin.sock'' ''/etc/dra'' None Map.empty)))
       (cdiFilePath (\<lambda>dir name. dir @ ''/'' @ name)
         (New ''file.dra.example.com'' ''node-1'' ''/plugin.sock'' ''/etc/dra'' None Map.empty))
      = None"
proof -
  let ?join = "\<lambda>dir name. dir @ ''/'' @ name"
  let ?x = "\<lparr>Namespace = ''default'', Uid = ''uid-x'', Name = ''claim-x''\<rparr>"
  let ?y = "\<lparr>Namespace = ''default'', Uid = ''uid-y'', Name = ''claim-y''\<rparr>"
  let ?pf = "\<lparr>resource_write = None, cdi_mkdir = None, cdi_write = None\<rparr>"
  let ?uf = "\<lparr>resource_read = None, resource_rewrite = None, cdi_remove = None\<rparr>"
  let ?new = "New ''file.dra.example.com'' ''node-1'' ''/plugin.sock'' ''/etc/dra'' None Map.empty"
  let ?r = "\<lparr>Devices = [\<lparr>PoolName = ''default'', DeviceName = ''file1'',
                        CdiDeviceIds = [''file.dra.example.com/file=file1'']\<rparr>],
           Error = []\<rparr>"
  have resp: "fst (NodePrepareResources ?join [(?x, ?pf)] ?new) = Inr [''uid-x'' \<mapsto> ?r]"
    by (simp add: NodePrepareResources_def extractPodName_def prepareResource_ok
        createCDISpec_def os_MkdirAll_def os_WriteFile_def Let_def New_def resourceFileName_def)
  have entry: "[''uid-x'' \<mapsto> ?r] ''uid-x'' = Some ?r" by simp
  have no_error: "Error ?r = []" by simp
  have whole: "whole_write (cdi_write ?pf)" by simp
  then have batch: "\<forall>(claim, flt)\<in>set [(?x, ?pf)]. whole_write (cdi_write flt)" by simp
  have untracked: "fst (unprepareResource (resource_read ?uf) (resource_rewrite ?uf) (Uid ?y) ?new) = None
      \<and> cdi_remove ?uf = None"
    by (simp add: unprepareResource_untracked New_def)
  show ?thesis
    using descriptor_file_shared_by_claims [OF resp entry no_error batch] resp untracked whole
    by (auto simp del: fun_upd_apply)
qed

section \<open>Lemmas on the results of a prepare batch\<close>

lemma prepare_loop_turn:
  assumes "extractPodName claim = Inr podName"
  shows "\<exists>d1. driverName d1 = driverName d
             \<and> prepare_loop join ((claim, flt) # rest) resp d
                 = prepare_loop join rest (resp(Uid claim \<mapsto> claim_result (driverName d) flt)) d1"
proof -
  let ?r1 = "prepareResource (resource_write flt) (Uid claim) podName d"
  let ?r2 = "createCDISpec join (cdi_mkdir flt) (cdi_write flt) (Uid claim) (snd ?r1)"
  note turn = prepare_loop_Cons [OF assms, of join flt rest resp d, unfolded Let_def]
  have name: "driverName (snd ?r1) = driverName d" "driverName (snd ?r2) = driverName d"
    by (simp_all add: prepareResource_frame createCDISpec_frame)
  show ?thesis
  proof (cases "resource_write flt")
    case (Some w)
    then have "fst ?r1 = Some (''failed to write resource file: '' @ fault_text w)"
      by (simp add: prepareResource_fail)
    moreover have "claim_result (driverName d) flt
        = \<lparr>Devices = [], Error = ''failed to write resource file: '' @ fault_text w\<rparr>"
      by (simp add: claim_result_def Some)
    ultimately have "prepare_loop join ((claim, flt) # rest) resp d
        = prepare_loop join rest (resp(Uid claim \<mapsto> claim_result (driverName d) flt)) (snd ?r1)"
      by (simp only: turn option.case)
    with name(1) show ?thesis by blast
  next
    case None
    then have r1: "fst ?r1 = None"
      by (simp add: prepareResource_ok)
    have "prepare_loop join ((claim, flt) # rest) resp d
        = prepare_loop join rest (resp(Uid claim \<mapsto> claim_result (driverName d) flt)) (snd ?r2)"
    proof (cases rule: createCDISpec_cases [of "cdi_mkdir flt" join "cdi_write flt" "Uid claim" "snd ?r1"])
      case (mkdir_fail msg)
      then have "fst ?r2 = Some (''failed to create CDI directory: '' @ msg)" by simp
      moreover have "claim_result (driverName d) flt
          = \<lparr>Devices = [], Error = ''failed to create CDI directory: '' @ msg\<rparr>"
        by (simp add: claim_result_def None mkdir_fail(1))
      ultimately show ?thesis
        by (simp only: turn r1 option.case)
    next
      case (write_fail w d')
      then have "fst ?r2 = Some (''failed to write CDI spec: '' @ fault_text w)" by simp
      moreover have "claim_result (driverName d) flt
          = \<lparr>Devices = [], Error = ''failed to write CDI spec: '' @ fault_text w\<rparr>"
        by (simp add: claim_result_def None write_fail(1,2))
      ultimately show ?thesis
        by (simp only: turn r1 option.case)
    next
      case (ok spec)
      then have "fst ?r2 = None" by simp
      moreover have "claim_result (driverName d) flt
          = \<lparr>Devices = [\<lparr>PoolName = ''default'', DeviceName = resourceFileName,
                           CdiDeviceIds = [driverName d @ ''/file='' @ resourceFileName]\<rparr>],
              Error = []\<rparr>"
        by (simp add: claim_result_def None ok(1,2))
      ultimately show ?thesis
        by (simp only: turn r1 option.case)
    qed
    with name(2) show ?thesis by blast
  qed
qed

lemma extractPodName_defined: "label_defined claim \<Longrightarrow> \<exists>podName. extractPodName claim = Inr podName"
  by (auto simp: label_defined_def extractPodName_def)

lemma prepare_loop_results:
  "\<forall>(claim, flt)\<in>set req. label_defined claim \<Longrightarrow>
     fst (prepare_loop join req resp d)
       = Inr (resp ++ map_of (rev (map (\<lambda>(claim, flt). (Uid claim, claim_result (driverName d) flt)) req)))"
proof (induction req arbitrary: resp d)
  case Nil
  then show ?case by simp
next
  case (Cons a req)
  obtain claim flt where a: "a = (claim, flt)" by (cases a)
  from Cons.prems have "label_defined claim" and rest: "\<forall>(claim, flt)\<in>set req. label_defined claim"
    by (simp_all add: a)
  then obtain podName where "extractPodName claim = Inr podName"
    using extractPodName_defined by blast
  from prepare_loop_turn [OF this, where d = d and join = join and flt = flt and rest = req
      and resp = resp]
  obtain d1 where name: "driverName d1 = driverName d"
    and turn: "prepare_loop join ((claim, flt) # req) resp d
        = prepare_loop join req (resp(Uid claim \<mapsto> claim_result (driverName d) flt)) d1"
    by blast
  let ?resp1 = "resp(Uid claim \<mapsto> claim_result (driverName d) flt)"
  let ?g = "\<lambda>(claim, flt). (Uid claim, claim_result (driverName d) flt)"
  have maps: "?resp1 ++ map_of (rev (map ?g req)) = resp ++ map_of (rev (map ?g (a # req)))"
    by (simp add: a)
  have "fst (prepare_loop join (a # req) resp d) = fst (prepare_loop join req ?resp1 d1)"
    by (simp only: a turn)
  also have "\<dots> = Inr (?resp1 ++ map_of (rev (map ?g req)))"
    using Cons.IH [OF rest, where resp = ?resp1 and d = d1] by (simp only: name)
  finally show ?case
    by (simp only: maps)
qed

lemma claim_result_either:
  "(Devices (claim_result dn flt) \<noteq> [] \<and> Error (claim_result dn flt) = [])
   \<or> (Devices (claim_result dn flt) = [] \<and> Error (claim_result dn flt) \<noteq> [])"
  by (simp add: claim_result_def split: option.splits)

text \<open>
  A batch on which \<open>extractPodName\<close> does not panic gets a response; the response
  has an entry for the claim ids of the batch and for no other; the entry of a claim
  id is the result of the last claim of the batch with that id, which depends on the
  faults met for that claim and on nothing else; and it has a device or an error
  text, not both.
\<close>

lemma prepare_batch_without_panic:
  assumes "\<forall>(claim, flt)\<in>set req. label_defined claim"
  shows "\<exists>resp. fst (NodePrepareResources join req d) = Inr resp
           \<and> resp = map_of (rev (map (\<lambda>(claim, flt). (Uid claim, claim_result (driverName d) flt)) req))
           \<and> dom resp = (\<lambda>(claim, flt). Uid claim) ` set req
           \<and> (\<forall>claimUID r. resp claimUID = Some r \<longrightarrow>
                 (Devices r \<noteq> [] \<and> Error r = []) \<or> (Devices r = [] \<and> Error r \<noteq> []))"
proof -
  let ?resp = "map_of (rev (map (\<lambda>(claim, flt). (Uid claim, claim_result (driverName d) flt)) req))"
  have "fst (NodePrepareResources join req d) = Inr ?resp"
    unfolding NodePrepareResources_def using prepare_loop_results [OF assms] by simp
  moreover have "dom ?resp = (\<lambda>(claim, flt). Uid claim) ` set req"
    by (force simp: dom_map_of_conv_image_fst image_image split_def)
  moreover have "(Devices r \<noteq> [] \<and> Error r = []) \<or> (Devices r = [] \<and> Error r \<noteq> [])"
    if "?resp claimUID = Some r" for claimUID r
  proof -
    from that have "(claimUID, r) \<in> set (rev (map (\<lambda>(claim, flt). (Uid claim, claim_result (driverName d) flt)) req))"
      by (rule map_of_SomeD)
    then obtain flt where "r = claim_result (driverName d) flt" by auto
    then show ?thesis using claim_result_either by simp
  qed
  ultimately show ?thesis by blast
qed

lemma map_of_filter_key: "map_of xs k = map_of (filter (\<lambda>p. fst p = k) xs) k"
  by (induction xs) auto

text \<open>The entry of a claim id in the response is the same for two batches that
  agree on the claims of that id and on the faults met for them, whatever the other
  claims of the batches are and whatever happens to them.\<close>

lemma prepare_result_independent:
  assumes "\<forall>(claim, flt)\<in>set req. label_defined claim"
    and "\<forall>(claim, flt)\<in>set req'. label_defined claim"
    and "filter (\<lambda>(claim, flt). Uid claim = claimUID) req'
           = filter (\<lambda>(claim, flt). Uid claim = claimUID) req"
    and "driverName d' = driverName d"
  shows "\<exists>resp resp'. fst (NodePrepareResources join req d) = Inr resp
           \<and> fst (NodePrepareResources join req' d') = Inr resp'
           \<and> resp' claimUID = resp claimUID"
proof -
  let ?g = "\<lambda>(claim, flt). (Uid claim, claim_result (driverName d) flt)"
  have key: "map_of (rev (map ?g xs)) claimUID
      = map_of (rev (map ?g (filter (\<lambda>(claim, flt). Uid claim = claimUID) xs))) claimUID"
    for xs :: "(Claim \<times> prepare_faults) list"
    by (subst map_of_filter_key) (simp add: rev_filter [symmetric] filter_map comp_def split_def)
  have "fst (NodePrepareResources join req d) = Inr (map_of (rev (map ?g req)))"
    unfolding NodePrepareResources_def using prepare_loop_results [OF assms(1)] by simp
  moreover have "fst (NodePrepareResources join req' d') = Inr (map_of (rev (map ?g req')))"
    unfolding NodePrepareResources_def using prepare_loop_results [OF assms(2)]
    by (simp add: assms(4))
  moreover have "map_of (rev (map ?g req')) claimUID = map_of (rev (map ?g req)) claimUID"
    using key [of req] key [of req'] by (simp only: assms(3))
  ultimately show ?thesis by blast
qed

section \<open>C8: the response of a prepare batch\<close>

text \<open>
  C8 asks that the response of every prepare batch map every requested claim id to
  one result, and that a failure on one claim leave the results of the others as
  they are. On the batch of a well-formed claim \<open>uid-x\<close> followed by a claim with
  an empty name and the uid \<open>abc\<close>, and with no fault of the operating system,
  \<open>NodePrepareResources\<close> panics in \<open>extractPodName\<close>: there is no response,
  neither for \<open>abc\<close> nor for \<open>uid-x\<close>, which had been prepared.
\<close>

theorem prepare_batch_panics_on_short_uid:
  "fst (NodePrepareResources (\<lambda>dir name. dir @ ''/'' @ name)
        [(\<lparr>Namespace = ''default'', Uid = ''uid-x'', Name = ''claim-x''\<rparr>,
          \<lparr>resource_write = None, cdi_mkdir = None, cdi_write = None\<rparr>),
         (\<lparr>Namespace = ''default'', Uid = ''abc'', Name = []\<rparr>,
          \<lparr>resource_write = None, cdi_mkdir = None, cdi_write = None\<rparr>)]
        (New ''file.dra.example.com'' ''node-1'' ''/plugin.sock'' ''/etc/dra'' None Map.empty))
     = Inl (SliceBoundsOutOfRange 8 3)
   \<and> podResources (snd (NodePrepareResources (\<lambda>dir name. dir @ ''/'' @ name)
        [(\<lparr>Namespace = ''default'', Uid = ''uid-x'', Name = ''claim-x''\<rparr>,
          \<lparr>resource_write = None, cdi_mkdir = None, cdi_write = None\<rparr>),
         (\<lparr>Namespace = ''default'', Uid = ''abc'', Name = []\<rparr>,
          \<lparr>resource_write = None, cdi_mkdir = None, cdi_write = None\<rparr>)]
        (New ''file.dra.example.com'' ''node-1'' ''/plugin.sock'' ''/etc/dra'' None Map.empty)))
       ''uid-x'' = Some ''pod-using-claim-x''"
  by (simp add: NodePrepareResources_def extractPodName_def prepareResource_ok
      createCDISpec_def os_MkdirAll_def os_WriteFile_def Let_def New_def)

section \<open>C9: publishing the resource slice\<close>

text \<open>
  C9, as stated, asks that a failure of the creation for a reason other than an
  existing record be reported to the caller. The creation fails here because the
  broker is unavailable, the record exists and the fetch and the update succeed:
  \<open>PublishResources\<close> has made the three calls and returns without error.
\<close>

theorem publish_reports_create_failure_counterexample:
  "snd (PublishResources
         \<lparr>driverName_pub = ''file.dra.example.com'', nodeName_pub = ''node-1'',
          resourceName_pub = ''file1''\<rparr>
         \<lparr>create_reply = Some (OtherFailure ''the server is currently unable to handle the request''),
          get_reply = Inr \<lparr>Name_slice = ''node-1-file.dra.example.com'', ResourceVersion = ''42'',
                            Driver_spec = ''file.dra.example.com'', NodeName_spec = ''node-1'',
                            Pool = \<lparr>Name_pool = ''node-1'', Generation = 1, ResourceSliceCount = 1\<rparr>,
                            Devices_spec = []\<rparr>,
          update_reply = None\<rparr>) = None
   \<and> length (fst (PublishResources
         \<lparr>driverName_pub = ''file.dra.example.com'', nodeName_pub = ''node-1'',
          resourceName_pub = ''file1''\<rparr>
         \<lparr>create_reply = Some (OtherFailure ''the server is currently unable to handle the request''),
          get_reply = Inr \<lparr>Name_slice = ''node-1-file.dra.example.com'', ResourceVersion = ''42'',
                            Driver_spec = ''file.dra.example.com'', NodeName_spec = ''node-1'',
                            Pool = \<lparr>Name_pool = ''node-1'', Generation = 1, ResourceSliceCount = 1\<rparr>,
                            Devices_spec = []\<rparr>,
          update_reply = None\<rparr>)) = 3"
  by (simp add: PublishResources_def Let_def)

text \<open>
  C9, amended. \<open>PublishResources\<close> first calls \<open>Create\<close> with the slice named
  \<open><node>-<driver>\<close>, and returns without error when the creation succeeds. When
  the creation fails, for whatever reason, it calls \<open>Get\<close> for that name; when
  the fetch fails it returns an error that carries the texts of both failures, and
  makes no other call; when the fetch succeeds it calls \<open>Update\<close> with the same
  slice carrying the resource version of the fetched record, and returns an error
  exactly when the update fails. A failure of the creation followed by a fetch and
  an update that succeed is not reported.
\<close>

theorem publish_create_then_update:
  "\<exists>slice. Name_slice slice = nodeName_pub p @ ''-'' @ driverName_pub p
      \<and> ResourceVersion slice = []
      \<and> (create_reply b = None \<longrightarrow> PublishResources p b = ([Create slice], None))
      \<and> (\<forall>err getErr. create_reply b = Some err \<and> get_reply b = Inl getErr \<longrightarrow>
            PublishResources p b =
              ([Create slice, Get (Name_slice slice)],
               Some (''failed to create or get ResourceSlice: create='' @ api_Error err
                     @ '', get='' @ api_Error getErr)))
      \<and> (\<forall>err existing. create_reply b = Some err \<and> get_reply b = Inr existing \<longrightarrow>
            fst (PublishResources p b) =
              [Create slice, Get (Name_slice slice),
               Update (slice\<lparr>ResourceVersion := ResourceVersion existing\<rparr>)]
            \<and> snd (PublishResources p b) =
              (case update_reply b of
                 None \<Rightarrow> None
               | Some uerr \<Rightarrow> Some (''failed to update ResourceSlice: '' @ api_Error uerr)))"
proof -
  let ?slice = "\<lparr>Name_slice = nodeName_pub p @ ''-'' @ driverName_pub p,
      ResourceVersion = [],
      Driver_spec = driverName_pub p,
      NodeName_spec = nodeName_pub p,
      Pool = \<lparr>Name_pool = nodeName_pub p, Generation = 1, ResourceSliceCount = 1\<rparr>,
      Devices_spec =
        [\<lparr>Name_device = resourceName_pub p,
          Attributes =
            [(''file.dra.example.com/type'', ''file''),
             (''file.dra.example.com/filename'', resourceName_pub p),
             (''file.dra.example.com/path'', ''/etc/dra/'' @ resourceName_pub p)]\<rparr>]\<rparr>"
  have created: "create_reply b = None \<longrightarrow> PublishResources p b = ([Create ?slice], None)"
    by (simp add: PublishResources_def Let_def)
  have no_fetch: "PublishResources p b =
      ([Create ?slice, Get (Name_slice ?slice)],
       Some (''failed to create or get ResourceSlice: create='' @ api_Error err
             @ '', get='' @ api_Error getErr))"
    if "create_reply b = Some err \<and> get_reply b = Inl getErr" for err getErr
    using that by (simp add: PublishResources_def Let_def)
  have calls: "fst (PublishResources p b) =
      [Create ?slice, Get (Name_slice ?slice),
       Update (?slice\<lparr>ResourceVersion := ResourceVersion existing\<rparr>)]"
    if "create_reply b = Some err \<and> get_reply b = Inr existing" for err existing
    using that by (simp add: PublishResources_def Let_def split: option.splits)
  have result: "snd (PublishResources p b) =
      (case update_reply b of
         None \<Rightarrow> None
       | Some uerr \<Rightarrow> Some (''failed to update ResourceSlice: '' @ api_Error uerr))"
    if "create_reply b = Some err \<and> get_reply b = Inr existing" for err existing
    using that by (simp add: PublishResources_def Let_def split: option.splits)
  have "Name_slice ?slice = nodeName_pub p @ ''-'' @ driverName_pub p" by simp
  moreover have "ResourceVersion ?slice = []" by simp
  ultimately show ?thesis
    using created no_fetch calls result by (intro exI [of _ ?slice]) blast
qed

theorem publish_create_then_update_witness:
  "create_reply
      \<lparr>create_reply = Some (AlreadyExists ''resourceslices.resource.k8s.io already exists''),
       get_reply = Inr \<lparr>Name_slice = ''node-1-file.dra.example.com'', ResourceVersion = ''42'',
                         Driver_spec = ''file.dra.example.com'', NodeName_spec = ''node-1'',
                         Pool = \<lparr>Name_pool = ''node-1'', Generation = 1, ResourceSliceCount = 1\<rparr>,
                         Devices_spec = []\<rparr>,
       update_reply = None\<rparr>
     = Some (AlreadyExists ''resourceslices.resource.k8s.io already exists'')
   \<and> (\<exists>slice. Name_slice slice = ''node-1-file.dra.example.com''
        \<and> fst (PublishResources
              \<lparr>driverName_pub = ''file.dra.example.com'', nodeName_pub = ''node-1'',
               resourceName_pub = ''file1''\<rparr>
              \<lparr>create_reply = Some (AlreadyExists ''resourceslices.resource.k8s.io already exists''),
               get_reply = Inr \<lparr>Name_slice = ''node-1-file.dra.example.com'', ResourceVersion = ''42'',
                                 Driver_spec = ''file.dra.example.com'', NodeName_spec = ''node-1'',
                                 Pool = \<lparr>Name_pool = ''node-1'', Generation = 1, ResourceSliceCount = 1\<rparr>,
                                 Devices_spec = []\<rparr>,
               update_reply = None\<rparr>)
            = [Create slice, Get ''node-1-file.dra.example.com'',
               Update (slice\<lparr>ResourceVersion := ''42''\<rparr>)]
        \<and> snd (PublishResources
              \<lparr>driverName_pub = ''file.dra.example.com'', nodeName_pub = ''node-1'',
               resourceName_pub = ''file1''\<rparr>
              \<lparr>create_reply = Some (AlreadyExists ''resourceslices.resource.k8s.io already exists''),
               get_reply = Inr \<lparr>Name_slice = ''node-1-file.dra.example.com'', ResourceVersion = ''42'',
                                 Driver_spec = ''file.dra.example.com'', NodeName_spec = ''node-1'',
                                 Pool = \<lparr>Name_pool = ''node-1'', Generation = 1, ResourceSliceCount = 1\<rparr>,
                                 Devices_spec = []\<rparr>,
               update_reply = None\<rparr>)
            = None)"
proof -
  let ?p = "\<lparr>driverName_pub = ''file.dra.example.com'', nodeName_pub = ''node-1'',
               resourceName_pub = ''file1''\<rparr>"
  let ?existing = "\<lparr>Name_slice = ''node-1-file.dra.example.com'', ResourceVersion = ''42'',
                     Driver_spec = ''file.dra.example.com'', NodeName_spec = ''node-1'',
                     Pool = \<lparr>Name_pool = ''node-1'', Generation = 1, ResourceSliceCount = 1\<rparr>,
                     Devices_spec = []\<rparr>"
  let ?b = "\<lparr>create_reply = Some (AlreadyExists ''resourceslices.resource.k8s.io already exists''),
            get_reply = Inr ?existing, update_reply = None\<rparr>"
  have replies: "create_reply ?b = Some (AlreadyExists ''resourceslices.resource.k8s.io already exists'')
      \<and> get_reply ?b = Inr ?existing"
    by simp
  from publish_create_then_update [of ?p ?b]
  obtain slice where name: "Name_slice slice = nodeName_pub ?p @ ''-'' @ driverName_pub ?p"
    and fallback: "\<forall>err existing. create_reply ?b = Some err \<and> get_reply ?b = Inr existing \<longrightarrow>
            fst (PublishResources ?p ?b) =
              [Create slice, Get (Name_slice slice),
               Update (slice\<lparr>ResourceVersion := ResourceVersion existing\<rparr>)]
            \<and> snd (PublishResources ?p ?b) =
              (case update_reply ?b of
                 None \<Rightarrow> None
               | Some uerr \<Rightarrow> Some (''failed to update ResourceSlice: '' @ api_Error uerr))"
    by blast
  from fallback replies
  have "fst (PublishResources ?p ?b) =
              [Create slice, Get (Name_slice slice),
               Update (slice\<lparr>ResourceVersion := ResourceVersion ?existing\<rparr>)]
        \<and> snd (PublishResources ?p ?b) =
              (case update_reply ?b of
                 None \<Rightarrow> None
               | Some uerr \<Rightarrow> Some (''failed to update ResourceSlice: '' @ api_Error uerr))"
    by blast
  with name have "Name_slice slice = ''node-1-file.dra.example.com''
        \<and> fst (PublishResources ?p ?b)
            = [Create slice, Get ''node-1-file.dra.example.com'',
               Update (slice\<lparr>ResourceVersion := ''42''\<rparr>)]
        \<and> snd (PublishResources ?p ?b) = None"
    by simp
  then show ?thesis
    using replies by blast
qed

end
